theory Spec2Isabelle
  imports Complex_Main "HOL-Library.AList"
begin

section \<open>Python values, exceptions and built-ins\<close>

text \<open>
  The handlers of \<^verbatim>\<open>modules/dashboard/question_editor.py\<close> work on the
  dictionaries that \<^verbatim>\<open>transforms.json_to_dict\<close> produces from a JSON payload:
  trees of None, booleans, numbers, strings, lists and dictionaries with string keys.
  A dictionary is an association list; it is read with \<^const>\<open>map_of\<close> and
  written with \<^const>\<open>AList.update\<close>, as \<^verbatim>\<open>d[k]\<close> and
  \<^verbatim>\<open>d[k] = v\<close> are.
\<close>

datatype pyfloat = Finite real | PosInf | NegInf | NaN

datatype pyval =
    PNone
  | PBool bool
  | PInt int
  | PFloat pyfloat
  | PStr string
  | PList "pyval list"
  | PDict "(string \<times> pyval) list"

type_synonym pydict = "(string \<times> pyval) list"

text \<open>
  Every raise of the source is a value. The three exceptions that
  \<^verbatim>\<open>GiftQuestionRESTHandler.put\<close> catches carry their message
  (\<^verbatim>\<open>str(e)\<close>).
\<close>

datatype exn =
    ValueError string
  | ParseError string
  | CollisionError string
  | KeyError string
  | TypeError
  | AttributeError
  | AssertionError
  | OverflowError

text \<open>Python truth value testing (\<^verbatim>\<open>not x\<close>, \<^verbatim>\<open>if x\<close>).\<close>

fun truthy :: "pyval \<Rightarrow> bool" where
  "truthy PNone = False"
| "truthy (PBool b) = b"
| "truthy (PInt n) = (n \<noteq> 0)"
| "truthy (PFloat f) = (f \<noteq> Finite 0)"
| "truthy (PStr s) = (s \<noteq> [])"
| "truthy (PList xs) = (xs \<noteq> [])"
| "truthy (PDict d) = (d \<noteq> [])"

text \<open>
  \<^verbatim>\<open>v.strip()\<close> on a value: only strings have the method. What the method
  removes depends on the string type (text strings know more whitespace than byte
  strings), so the built-in \<^verbatim>\<open>strip\<close> on strings is a parameter, as
  \<^verbatim>\<open>long\<close>, \<^verbatim>\<open>int\<close> and \<^verbatim>\<open>float\<close> are below.
\<close>

fun str_strip :: "(string \<Rightarrow> string) \<Rightarrow> pyval \<Rightarrow> exn + string" where
  "str_strip py_strip (PStr s) = Inr (py_strip s)"
| "str_strip py_strip _ = Inl AttributeError"

text \<open>\<^verbatim>\<open>d[k]\<close> on a dictionary, and \<^verbatim>\<open>v[k]\<close> on a value with a string key.\<close>

definition dict_getitem :: "pydict \<Rightarrow> string \<Rightarrow> exn + pyval" where
  "dict_getitem d k = (case map_of d k of None \<Rightarrow> Inl (KeyError k) | Some v \<Rightarrow> Inr v)"

fun getitem :: "pyval \<Rightarrow> string \<Rightarrow> exn + pyval" where
  "getitem (PDict d) k = dict_getitem d k"
| "getitem _ k = Inl TypeError"

text \<open>\<^verbatim>\<open>str(n)\<close> and \<^verbatim>\<open>'%s' % n\<close> for an integer: its decimal digits.\<close>

definition digit_char :: "nat \<Rightarrow> char" where
  "digit_char n = ''0123456789'' ! n"

fun str_nat :: "nat \<Rightarrow> string" where
  "str_nat n = (if n < 10 then [digit_char n] else str_nat (n div 10) @ [digit_char (n mod 10)])"

declare str_nat.simps [simp del]

definition str_int :: "int \<Rightarrow> string" where
  "str_int i = (if i < 0 then CHR ''-'' # str_nat (nat (- i)) else str_nat (nat i))"

section \<open>Stored entities\<close>

text \<open>
  \<^verbatim>\<open>QuestionDAO.get_all()\<close> and \<^verbatim>\<open>QuestionGroupDAO.get_all()\<close> belong to the
  datastore layer. Of a stored question the handlers read \<^verbatim>\<open>id\<close> and
  \<^verbatim>\<open>description\<close>, of a stored group \<^verbatim>\<open>description\<close>.
\<close>

record question =
  q_id :: int
  q_description :: string

record question_group =
  g_description :: string

section \<open>BaseQuestionRESTHandler\<close>

text \<open>
  \<^verbatim>\<open>sanitize_input_dict\<close> (lines 96-97) mutates \<^verbatim>\<open>json_dict\<close> in place; the
  model returns the dictionary after the call.
\<close>

definition sanitize_input_dict :: "(string \<Rightarrow> string) \<Rightarrow> pydict \<Rightarrow> exn + pydict" where
  "sanitize_input_dict py_strip json_dict =
     (case dict_getitem json_dict ''description'' of
        Inl e \<Rightarrow> Inl e
      | Inr v \<Rightarrow>
          (case str_strip py_strip v of
             Inl e \<Rightarrow> Inl e
           | Inr s \<Rightarrow> Inr (AList.update ''description'' (PStr s) json_dict)))"

text \<open>
  The set comprehension of \<^verbatim>\<open>validate_no_description_collision\<close> (lines 114-115).
  For each stored question the filter \<^verbatim>\<open>not key or q.id != long(key)\<close> is
  evaluated; \<^verbatim>\<open>long\<close> is the Python built-in, taken as a parameter.
\<close>

fun other_descriptions ::
  "(pyval \<Rightarrow> exn + int) \<Rightarrow> pyval \<Rightarrow> question list \<Rightarrow> exn + string list" where
  "other_descriptions py_long key [] = Inr []"
| "other_descriptions py_long key (q # qs) =
     (if \<not> truthy key then
        (case other_descriptions py_long key qs of
           Inl e \<Rightarrow> Inl e
         | Inr ds \<Rightarrow> Inr (q_description q # ds))
      else
        (case py_long key of
           Inl e \<Rightarrow> Inl e
         | Inr k \<Rightarrow>
             (case other_descriptions py_long key qs of
                Inl e \<Rightarrow> Inl e
              | Inr ds \<Rightarrow> Inr (if q_id q \<noteq> k then q_description q # ds else ds))))"

text \<open>
  \<^verbatim>\<open>x in s\<close> for a set \<^verbatim>\<open>s\<close> of strings: \<^verbatim>\<open>x\<close> is hashed first, and
  lists and dictionaries are unhashable; a value that is not a string equals no string.
\<close>

fun in_str_set :: "pyval \<Rightarrow> string list \<Rightarrow> exn + bool" where
  "in_str_set (PStr s) ds = Inr (s \<in> set ds)"
| "in_str_set (PList xs) ds = Inl TypeError"
| "in_str_set (PDict d) ds = Inl TypeError"
| "in_str_set _ ds = Inr False"

definition validate_no_description_collision ::
  "(pyval \<Rightarrow> exn + int) \<Rightarrow> question list \<Rightarrow> pyval \<Rightarrow> pyval \<Rightarrow> string list
     \<Rightarrow> exn + string list" where
  "validate_no_description_collision py_long get_all description key errors =
     (case other_descriptions py_long key get_all of
        Inl e \<Rightarrow> Inl e
      | Inr descriptions \<Rightarrow>
          (case in_str_set description descriptions of
             Inl e \<Rightarrow> Inl e
           | Inr found \<Rightarrow>
               (if found then
                  Inr (errors @ [''The description must be different from existing questions.''])
                else Inr errors)))"

section \<open>McQuestionRESTHandler\<close>

text \<open>
  \<^verbatim>\<open>transform_for_editor_hook\<close> (lines 201-206) is about object identity, so it
  runs on a store of objects: a cell per object, allocated in order. The dictionaries
  come from JSON and share no part with each other, so a cell holds the whole tree of
  its object, and \<^verbatim>\<open>copy.deepcopy\<close> allocates a new cell with an equal tree.
\<close>

record store =
  cells :: "nat \<Rightarrow> pyval"
  next_free :: nat

definition deepcopy :: "store \<Rightarrow> nat \<Rightarrow> store \<times> nat" where
  "deepcopy h a =
     (h\<lparr>cells := (cells h)(next_free h := cells h a), next_free := Suc (next_free h)\<rparr>,
      next_free h)"

text \<open>\<^verbatim>\<open>d.get(k)\<close>: None when the key is absent; only dictionaries have the method.\<close>

fun dict_get :: "pyval \<Rightarrow> string \<Rightarrow> exn + pyval" where
  "dict_get (PDict d) k = Inr (case map_of d k of None \<Rightarrow> PNone | Some v \<Rightarrow> v)"
| "dict_get _ k = Inl AttributeError"

text \<open>\<^verbatim>\<open>v[k] = x\<close> with a string key.\<close>

fun setitem :: "pyval \<Rightarrow> string \<Rightarrow> pyval \<Rightarrow> exn + pyval" where
  "setitem (PDict d) k x = Inr (PDict (AList.update k x d))"
| "setitem _ k x = Inl TypeError"

definition transform_for_editor_hook :: "store \<Rightarrow> nat \<Rightarrow> exn + (store \<times> nat)" where
  "transform_for_editor_hook h q_dict =
     (case deepcopy h q_dict of
        (h1, p_dict) \<Rightarrow>
          (case dict_get (cells h1 q_dict) ''multiple_selections'' of
             Inl e \<Rightarrow> Inl e
           | Inr sel \<Rightarrow>
               (case setitem (cells h1 p_dict) ''multiple_selections''
                       (PStr (if truthy sel then ''true'' else ''false'')) of
                  Inl e \<Rightarrow> Inl e
                | Inr p \<Rightarrow> Inr (h1\<lparr>cells := (cells h1)(p_dict := p)\<rparr>, p_dict))))"

text \<open>
  The body of the loop over the choices in \<^verbatim>\<open>_validate15\<close> (lines 241-249), for
  the choice at \<^verbatim>\<open>index\<close>: it returns the choice and the error list after the
  iteration. \<^verbatim>\<open>float\<close> is the Python built-in, taken as a parameter; only its
  ValueError is caught.
\<close>

definition mc_check_choice ::
  "(string \<Rightarrow> string) \<Rightarrow> (pyval \<Rightarrow> exn + pyfloat) \<Rightarrow> nat \<Rightarrow> pyval \<Rightarrow> string list
     \<Rightarrow> exn + (pyval \<times> string list)" where
  "mc_check_choice py_strip py_float index choice errors =
     (case getitem choice ''text'' of
        Inl e \<Rightarrow> Inl e
      | Inr t \<Rightarrow>
     (case str_strip py_strip t of
        Inl e \<Rightarrow> Inl e
      | Inr s \<Rightarrow>
     (let errors1 =
            (if s = [] then errors @ [''Choice '' @ str_nat (index + 1) @ '' has no response text.'']
             else errors)
      in
     (case getitem choice ''score'' of
        Inl e \<Rightarrow> Inl e
      | Inr score \<Rightarrow>
     (case py_float score of
        Inl (ValueError m) \<Rightarrow>
          Inr (choice,
               errors1 @ [''Choice '' @ str_nat (index + 1) @ '' must have a numeric score.''])
      | Inl e \<Rightarrow> Inl e
      | Inr f \<Rightarrow>
          (case setitem choice ''score'' (PFloat f) of
             Inl e \<Rightarrow> Inl e
           | Inr choice' \<Rightarrow> Inr (choice', errors1)))))))"

fun mc_choices_loop ::
  "(string \<Rightarrow> string) \<Rightarrow> (pyval \<Rightarrow> exn + pyfloat) \<Rightarrow> nat \<Rightarrow> pyval list \<Rightarrow> string list
     \<Rightarrow> exn + (pyval list \<times> string list)" where
  "mc_choices_loop py_strip py_float index [] errors = Inr ([], errors)"
| "mc_choices_loop py_strip py_float index (choice # rest) errors =
     (case mc_check_choice py_strip py_float index choice errors of
        Inl e \<Rightarrow> Inl e
      | Inr (choice', errors1) \<Rightarrow>
          (case mc_choices_loop py_strip py_float (index + 1) rest errors1 of
             Inl e \<Rightarrow> Inl e
           | Inr (rest', errors2) \<Rightarrow> Inr (choice' # rest', errors2)))"

text \<open>
  \<^verbatim>\<open>for index in range(0, len(choices)): choice = choices[index] ...\<close> on whatever
  value \<^verbatim>\<open>question_dict['choices']\<close> holds. A list runs the loop. A non-empty
  string yields a one-character string as \<^verbatim>\<open>choice\<close>, whose
  \<^verbatim>\<open>choice['text']\<close> is a TypeError; a non-empty dictionary has no key
  \<^verbatim>\<open>0\<close>; the other values have no \<^verbatim>\<open>len\<close>.
\<close>

fun mc_validate_choices ::
  "(string \<Rightarrow> string) \<Rightarrow> (pyval \<Rightarrow> exn + pyfloat) \<Rightarrow> pyval \<Rightarrow> string list
     \<Rightarrow> exn + (pyval \<times> string list)" where
  "mc_validate_choices py_strip py_float (PList cs) errors =
     (case mc_choices_loop py_strip py_float 0 cs errors of
        Inl e \<Rightarrow> Inl e
      | Inr (cs', errors') \<Rightarrow> Inr (PList cs', errors'))"
| "mc_validate_choices py_strip py_float (PStr s) errors =
     (if s = [] then Inr (PStr s, errors) else Inl TypeError)"
| "mc_validate_choices py_strip py_float (PDict d) errors =
     (if d = [] then Inr (PDict d, errors) else Inl (KeyError ''0''))"
| "mc_validate_choices py_strip py_float _ errors = Inl TypeError"

text \<open>
  \<^verbatim>\<open>McQuestionRESTHandler._validate15\<close> (lines 226-249). It mutates
  \<^verbatim>\<open>question_dict\<close> and \<^verbatim>\<open>errors\<close>; the model returns both as they are
  when the method returns. \<^verbatim>\<open>get_all\<close> is what \<^verbatim>\<open>QuestionDAO.get_all()\<close>
  returns.
\<close>

definition Mc_validate15 ::
  "(string \<Rightarrow> string) \<Rightarrow> (pyval \<Rightarrow> exn + int) \<Rightarrow> (pyval \<Rightarrow> exn + pyfloat) \<Rightarrow> question list \<Rightarrow>
     pydict \<Rightarrow> pyval \<Rightarrow> string list \<Rightarrow> exn + (pydict \<times> string list)" where
  "Mc_validate15 py_strip py_long py_float get_all question_dict key errors =
     (case dict_getitem question_dict ''question'' of
        Inl e \<Rightarrow> Inl e
      | Inr q \<Rightarrow>
     (case str_strip py_strip q of
        Inl e \<Rightarrow> Inl e
      | Inr body \<Rightarrow>
     (let errors1 =
            (if body = [] then errors @ [''The question must have a non-empty body.'']
             else errors)
      in
     (case dict_getitem question_dict ''description'' of
        Inl e \<Rightarrow> Inl e
      | Inr description \<Rightarrow>
     (let errors2 =
            (if \<not> truthy description then errors1 @ [''The description must be non-empty.'']
             else errors1)
      in
     (case validate_no_description_collision py_long get_all description key errors2 of
        Inl e \<Rightarrow> Inl e
      | Inr errors3 \<Rightarrow>
     (case dict_getitem question_dict ''choices'' of
        Inl e \<Rightarrow> Inl e
      | Inr choices \<Rightarrow>
     (let errors4 =
            (if \<not> truthy choices then errors3 @ [''The question must have at least one choice.'']
             else errors3)
      in
     (case mc_validate_choices py_strip py_float choices errors4 of
        Inl e \<Rightarrow> Inl e
      | Inr (choices', errors5) \<Rightarrow>
          Inr (AList.update ''choices'' choices' question_dict, errors5))))))))))"

section \<open>SaQuestionRESTHandler\<close>

text \<open>
  One of the two \<^verbatim>\<open>try\<close> blocks of \<^verbatim>\<open>_validate15\<close> (lines 379-385 with
  \<^verbatim>\<open>'rows'\<close> and \<^verbatim>\<open>'Rows'\<close>, lines 387-393 with \<^verbatim>\<open>'columns'\<close> and
  \<^verbatim>\<open>'Columns'\<close>). \<^verbatim>\<open>int\<close> is the Python built-in, taken as a parameter;
  only its ValueError is caught, and the KeyError of a missing field is not.
\<close>

definition coerce_whole_number ::
  "(pyval \<Rightarrow> exn + int) \<Rightarrow> string \<Rightarrow> string \<Rightarrow> pydict \<Rightarrow> string list
     \<Rightarrow> exn + (pydict \<times> string list)" where
  "coerce_whole_number py_int field label question_dict errors =
     (case dict_getitem question_dict field of
        Inl e \<Rightarrow> Inl e
      | Inr v \<Rightarrow>
          (case py_int v of
             Inl (ValueError m) \<Rightarrow>
               Inr (question_dict, errors @ [label @ '' must be a whole number''])
           | Inl e \<Rightarrow> Inl e
           | Inr n \<Rightarrow>
               (if n \<le> 0 then
                  Inr (AList.update field (PInt n) question_dict,
                       errors @ [label @ '' must be a positive whole number''])
                else Inr (AList.update field (PInt n) question_dict, errors))))"

definition GRADER_TYPES :: "(string \<times> string) list" where
  "GRADER_TYPES =
     [(''case_insensitive'', ''Case insensitive string match''),
      (''regex'', ''Regular expression''),
      (''numeric'', ''Numeric'')]"

text \<open>
  \<^verbatim>\<open>x in xs\<close> for a list \<^verbatim>\<open>xs\<close> of strings compares with \<^verbatim>\<open>==\<close> and
  hashes nothing: a value that is not a string equals no string.
\<close>

fun in_str_list :: "pyval \<Rightarrow> string list \<Rightarrow> bool" where
  "in_str_list (PStr s) ds = (s \<in> set ds)"
| "in_str_list _ ds = False"

text \<open>The body of the loop over the graders (lines 400-409); it mutates the errors only.\<close>

definition sa_check_grader ::
  "(string \<Rightarrow> string) \<Rightarrow> (pyval \<Rightarrow> exn + pyfloat) \<Rightarrow> nat \<Rightarrow> pyval \<Rightarrow> string list
     \<Rightarrow> exn + string list" where
  "sa_check_grader py_strip py_float index grader errors =
     (case getitem grader ''matcher'' of
        Inl e \<Rightarrow> Inl e
      | Inr matcher \<Rightarrow>
     (if \<not> in_str_list matcher (map fst GRADER_TYPES) then Inl AssertionError
      else
     (case getitem grader ''response'' of
        Inl e \<Rightarrow> Inl e
      | Inr r \<Rightarrow>
     (case str_strip py_strip r of
        Inl e \<Rightarrow> Inl e
      | Inr s \<Rightarrow>
     (let errors1 =
            (if s = [] then errors @ [''Answer '' @ str_nat (index + 1) @ '' has no response text.'']
             else errors)
      in
     (case getitem grader ''score'' of
        Inl e \<Rightarrow> Inl e
      | Inr score \<Rightarrow>
     (case py_float score of
        Inl (ValueError m) \<Rightarrow>
          Inr (errors1 @ [''Answer '' @ str_nat (index + 1) @ '' must have a numeric score.''])
      | Inl e \<Rightarrow> Inl e
      | Inr f \<Rightarrow> Inr errors1)))))))"

fun sa_graders_loop ::
  "(string \<Rightarrow> string) \<Rightarrow> (pyval \<Rightarrow> exn + pyfloat) \<Rightarrow> nat \<Rightarrow> pyval list \<Rightarrow> string list
     \<Rightarrow> exn + string list" where
  "sa_graders_loop py_strip py_float index [] errors = Inr errors"
| "sa_graders_loop py_strip py_float index (grader # rest) errors =
     (case sa_check_grader py_strip py_float index grader errors of
        Inl e \<Rightarrow> Inl e
      | Inr errors1 \<Rightarrow> sa_graders_loop py_strip py_float (index + 1) rest errors1)"

fun sa_validate_graders ::
  "(string \<Rightarrow> string) \<Rightarrow> (pyval \<Rightarrow> exn + pyfloat) \<Rightarrow> pyval \<Rightarrow> string list
     \<Rightarrow> exn + string list" where
  "sa_validate_graders py_strip py_float (PList gs) errors =
     sa_graders_loop py_strip py_float 0 gs errors"
| "sa_validate_graders py_strip py_float (PStr s) errors =
     (if s = [] then Inr errors else Inl TypeError)"
| "sa_validate_graders py_strip py_float (PDict d) errors =
     (if d = [] then Inr errors else Inl (KeyError ''0''))"
| "sa_validate_graders py_strip py_float _ errors = Inl TypeError"

text \<open>\<^verbatim>\<open>SaQuestionRESTHandler._validate15\<close> (lines 369-409).\<close>

definition Sa_validate15 ::
  "(string \<Rightarrow> string) \<Rightarrow> (pyval \<Rightarrow> exn + int) \<Rightarrow> (pyval \<Rightarrow> exn + int) \<Rightarrow>
     (pyval \<Rightarrow> exn + pyfloat) \<Rightarrow> question list \<Rightarrow> pydict \<Rightarrow> pyval \<Rightarrow> string list
     \<Rightarrow> exn + (pydict \<times> string list)" where
  "Sa_validate15 py_strip py_long py_int py_float get_all question_dict key errors =
     (case dict_getitem question_dict ''question'' of
        Inl e \<Rightarrow> Inl e
      | Inr q \<Rightarrow>
     (case str_strip py_strip q of
        Inl e \<Rightarrow> Inl e
      | Inr body \<Rightarrow>
     (let errors1 =
            (if body = [] then errors @ [''The question must have a non-empty body.'']
             else errors)
      in
     (case dict_getitem question_dict ''description'' of
        Inl e \<Rightarrow> Inl e
      | Inr description \<Rightarrow>
     (let errors2 =
            (if \<not> truthy description then errors1 @ [''The description must be non-empty.'']
             else errors1)
      in
     (case validate_no_description_collision py_long get_all description key errors2 of
        Inl e \<Rightarrow> Inl e
      | Inr errors3 \<Rightarrow>
     (case coerce_whole_number py_int ''rows'' ''Rows'' question_dict errors3 of
        Inl e \<Rightarrow> Inl e
      | Inr (question_dict1, errors4) \<Rightarrow>
     (case coerce_whole_number py_int ''columns'' ''Columns'' question_dict1 errors4 of
        Inl e \<Rightarrow> Inl e
      | Inr (question_dict2, errors5) \<Rightarrow>
     (case dict_getitem question_dict2 ''graders'' of
        Inl e \<Rightarrow> Inl e
      | Inr graders \<Rightarrow>
     (let errors6 =
            (if \<not> truthy graders then errors5 @ [''The question must have at least one answer.'']
             else errors5)
      in
     (case sa_validate_graders py_strip py_float graders errors6 of
        Inl e \<Rightarrow> Inl e
      | Inr errors7 \<Rightarrow> Inr (question_dict2, errors7))))))))))))"

section \<open>GiftQuestionRESTHandler\<close>

text \<open>
  \<^verbatim>\<open>validate_question_descriptions\<close> (lines 446-452): the loop over the imported
  questions, each a dictionary of the GIFT parser, against the descriptions of the stored
  questions.
\<close>

fun check_question_descriptions ::
  "string list \<Rightarrow> pydict list \<Rightarrow> string list \<Rightarrow> exn + string list" where
  "check_question_descriptions descriptions [] errors = Inr errors"
| "check_question_descriptions descriptions (question # rest) errors =
     (case dict_getitem question ''description'' of
        Inl e \<Rightarrow> Inl e
      | Inr d \<Rightarrow>
          check_question_descriptions descriptions rest
            (if in_str_list d descriptions then
               errors @ [''The description must be different from existing questions.'']
             else errors))"

definition validate_question_descriptions ::
  "question list \<Rightarrow> pydict list \<Rightarrow> string list \<Rightarrow> exn + string list" where
  "validate_question_descriptions get_all questions errors =
     check_question_descriptions (map q_description get_all) questions errors"

text \<open>\<^verbatim>\<open>validate_group_description\<close> (lines 454-457).\<close>

definition validate_group_description ::
  "question_group list \<Rightarrow> pyval \<Rightarrow> string list \<Rightarrow> string list" where
  "validate_group_description get_all group_description errors =
     (if in_str_list group_description (map g_description get_all) then
        errors @ [''Non-unique group description.'']
      else errors)"

text \<open>
  Modelled from the spec: \<^verbatim>\<open>QuestionDTO\<close> of \<^verbatim>\<open>models.models\<close> is not among
  the sources. The spec describes a Question record with an id, a type and the body
  fields; \<^verbatim>\<open>QuestionDTO(None, question)\<close> is the record with no id whose body is the
  dictionary \<^verbatim>\<open>question\<close> and whose \<^verbatim>\<open>type\<close>, as first read, is the
  \<^verbatim>\<open>'type'\<close> entry of that dictionary (None when absent). The two type constants
  \<^verbatim>\<open>QuestionDTO.MULTIPLE_CHOICE\<close> and \<^verbatim>\<open>QuestionDTO.SHORT_ANSWER\<close> are an
  enumeration.
\<close>

datatype question_type = MULTIPLE_CHOICE | SHORT_ANSWER

record QuestionDTO =
  dto_id :: "int option"
  dto_type :: question_type
  dto_dict :: pydict

definition parsed_type :: "pydict \<Rightarrow> pyval" where
  "parsed_type question = (case map_of question ''type'' of None \<Rightarrow> PNone | Some t \<Rightarrow> t)"

text \<open>
  \<^verbatim>\<open>convert_to_dtos\<close> (lines 464-474); \<^verbatim>\<open>VERSION\<close> is the constant
  \<^verbatim>\<open>QuestionDAO.VERSION\<close>, taken as a parameter.
\<close>

fun convert_to_dtos :: "pyval \<Rightarrow> pydict list \<Rightarrow> QuestionDTO list" where
  "convert_to_dtos VERSION [] = []"
| "convert_to_dtos VERSION (question # rest) =
     (let question' = AList.update ''version'' VERSION question in
      \<lparr>dto_id = None,
       dto_type =
         (if parsed_type question' = PStr ''multi_choice'' then MULTIPLE_CHOICE
          else SHORT_ANSWER),
       dto_dict = question'\<rparr> # convert_to_dtos VERSION rest)"

text \<open>
  \<^verbatim>\<open>create_group\<close> (lines 476-484); \<^verbatim>\<open>create_question_group\<close> is
  \<^verbatim>\<open>QuestionGroupDAO.create_question_group\<close>, taken as a parameter. The ids are
  the datastore ids that \<^verbatim>\<open>QuestionDAO.save_all\<close> returns.
\<close>

definition group_record :: "pyval \<Rightarrow> pyval \<Rightarrow> int list \<Rightarrow> pydict" where
  "group_record VERSION description question_ids =
     [(''version'', VERSION),
      (''description'', description),
      (''introduction'', PStr []),
      (''items'',
         PList (map (\<lambda>x. PDict [(''question'', PStr (str_int x)),
                                 (''weight'', PFloat (Finite 1.0))]) question_ids))]"

definition create_group :: "(pydict \<Rightarrow> 'r) \<Rightarrow> pyval \<Rightarrow> pyval \<Rightarrow> int list \<Rightarrow> 'r" where
  "create_group create_question_group VERSION description question_ids =
     create_question_group (group_record VERSION description question_ids)"

text \<open>
  \<^verbatim>\<open>put\<close> (lines 486-526) runs against parts that other modules own. They are
  the fields of an environment over a datastore state \<^typ>\<open>'s\<close>:
  the XSRF check and the role check of the request, \<^verbatim>\<open>transforms.json_to_dict\<close>
  against the schema, \<^verbatim>\<open>gift.GiftParser.parse_questions\<close>, the two
  \<^verbatim>\<open>get_all\<close> readers, \<^verbatim>\<open>QuestionDAO.save_all\<close> and
  \<^verbatim>\<open>QuestionGroupDAO.create_question_group\<close> (each returns the datastore state
  it leaves behind, whether it raises or not), the constant
  \<^verbatim>\<open>QuestionDAO.VERSION\<close>, and the text that \<^verbatim>\<open>'%s'\<close> formatting gives
  for a value.
\<close>

record 's environment =
  xsrf_token_ok :: bool
  is_course_admin :: bool
  json_to_dict :: "pyval \<Rightarrow> exn + pydict"
  parse_questions :: "pyval \<Rightarrow> exn + pydict list"
  questions_get_all :: "'s \<Rightarrow> question list"
  groups_get_all :: "'s \<Rightarrow> question_group list"
  save_all :: "'s \<Rightarrow> QuestionDTO list \<Rightarrow> 's \<times> (exn + int list)"
  create_question_group :: "'s \<Rightarrow> pydict \<Rightarrow> 's \<times> (exn + int)"
  DAO_VERSION :: pyval
  format_s :: "pyval \<Rightarrow> string"

text \<open>
  What the handler sends: the failure response of \<^verbatim>\<open>assert_xsrf_token_or_fail\<close>,
  a JSON response with a status and a message, or \<^verbatim>\<open>validation_error\<close> with
  its message.
\<close>

datatype response =
    Xsrf_failure
  | Json_response nat string
  | Validation_error string

text \<open>\<^verbatim>\<open>'\n'.join(errors)\<close>.\<close>

fun join_lines :: "string list \<Rightarrow> string" where
  "join_lines [] = []"
| "join_lines [x] = x"
| "join_lines (x # y # ys) = x @ [CHR 0x0A] @ join_lines (y # ys)"

text \<open>
  The body of the \<^verbatim>\<open>try\<close> statement (lines 503-513). It yields the datastore
  state, the error list and either the exception that left the body or
  \<^verbatim>\<open>python_dict\<close>.
\<close>

definition put_try ::
  "'s environment \<Rightarrow> 's \<Rightarrow> pyval \<Rightarrow> 's \<times> string list \<times> (exn + pydict)" where
  "put_try env s json_dict =
     (case json_to_dict env json_dict of
        Inl e \<Rightarrow> (s, [], Inl e)
      | Inr python_dict \<Rightarrow>
     (case dict_getitem python_dict ''questions'' of
        Inl e \<Rightarrow> (s, [], Inl e)
      | Inr text \<Rightarrow>
     (case parse_questions env text of
        Inl e \<Rightarrow> (s, [], Inl e)
      | Inr questions \<Rightarrow>
     (case validate_question_descriptions (questions_get_all env s) questions [] of
        Inl e \<Rightarrow> (s, [], Inl e)
      | Inr errors1 \<Rightarrow>
     (case dict_getitem python_dict ''description'' of
        Inl e \<Rightarrow> (s, errors1, Inl e)
      | Inr description \<Rightarrow>
     (let errors2 = validate_group_description (groups_get_all env s) description errors1 in
      if errors2 = [] then
        (let dtos = convert_to_dtos (DAO_VERSION env) questions in
         case save_all env s dtos of
           (s1, Inl e) \<Rightarrow> (s1, errors2, Inl e)
         | (s1, Inr question_ids) \<Rightarrow>
             (case create_group (create_question_group env s1) (DAO_VERSION env)
                     description question_ids of
                (s2, Inl e) \<Rightarrow> (s2, errors2, Inl e)
              | (s2, Inr g) \<Rightarrow> (s2, errors2, Inr python_dict)))
      else (s, errors2, Inr python_dict)))))))"

text \<open>
  Lines 520-526: the response once the \<^verbatim>\<open>try\<close> statement is over.
  \<^verbatim>\<open>python_dict\<close> is unbound when \<^verbatim>\<open>json_to_dict\<close> raised.
\<close>

datatype outcome = Responded response | Raised exn | Unbound_python_dict

definition put_respond :: "'s environment \<Rightarrow> string list \<Rightarrow> pydict option \<Rightarrow> outcome" where
  "put_respond env errors python_dict =
     (if errors \<noteq> [] then Responded (Validation_error (join_lines errors))
      else
        (case python_dict of
           None \<Rightarrow> Unbound_python_dict
         | Some d \<Rightarrow>
             (case dict_getitem d ''description'' of
                Inl e \<Rightarrow> Raised e
              | Inr description \<Rightarrow>
                  Responded (Json_response 200 (''Saved: '' @ format_s env description @ ''.'')))))"

text \<open>
  \<^verbatim>\<open>GiftQuestionRESTHandler.put\<close>, from the decoded payload \<^verbatim>\<open>json_dict\<close> on.
  The three \<^verbatim>\<open>except\<close> clauses append \<^verbatim>\<open>str(e)\<close>; any other exception
  leaves the method.
\<close>

definition put :: "'s environment \<Rightarrow> 's \<Rightarrow> pyval \<Rightarrow> 's \<times> outcome" where
  "put env s json_dict =
     (if \<not> xsrf_token_ok env then (s, Responded Xsrf_failure)
      else if \<not> is_course_admin env then (s, Responded (Json_response 401 ''Access denied.''))
      else
        (case put_try env s json_dict of
           (s', errors, Inl (ValueError m)) \<Rightarrow> (s', put_respond env (errors @ [m]) None)
         | (s', errors, Inl (ParseError m)) \<Rightarrow> (s', put_respond env (errors @ [m]) None)
         | (s', errors, Inl (CollisionError m)) \<Rightarrow> (s', put_respond env (errors @ [m]) None)
         | (s', errors, Inl e) \<Rightarrow> (s', Raised e)
         | (s', errors, Inr python_dict) \<Rightarrow> (s', put_respond env errors (Some python_dict))))"

section \<open>BaseQuestionRESTHandler: theorems\<close>

text \<open>
  C10. For a \<^verbatim>\<open>json_dict\<close> whose \<^verbatim>\<open>'description'\<close> is a string,
  \<^verbatim>\<open>sanitize_input_dict\<close> returns normally, the description becomes what
  \<^verbatim>\<open>strip()\<close> gives for it, every other key keeps its value and the key set is
  the same. This holds for whatever the built-in \<^verbatim>\<open>strip\<close> of the string
  type removes.
\<close>

theorem sanitize_input_dict_strips:
  assumes "map_of json_dict ''description'' = Some (PStr d)"
  shows "\<exists>json_dict'. sanitize_input_dict py_strip json_dict = Inr json_dict' \<and>
           map_of json_dict' ''description'' = Some (PStr (py_strip d)) \<and>
           (\<forall>k. k \<noteq> ''description'' \<longrightarrow> map_of json_dict' k = map_of json_dict k) \<and>
           map fst json_dict' = map fst json_dict"
proof -
  have k: "''description'' \<in> fst ` set json_dict"
    using assms by (metis map_of_eq_None_iff option.distinct(1))
  show ?thesis
    using assms k
    by (simp add: sanitize_input_dict_def dict_getitem_def update_conv' update_keys)
qed

text \<open>
  The example takes for \<^verbatim>\<open>strip\<close> its value on the one description at hand:
  \<^verbatim>\<open>'  Quiz 1 '.strip() == 'Quiz 1'\<close>.
\<close>

theorem sanitize_input_dict_strips_witness:
  "sanitize_input_dict (\<lambda>s. if s = ''  Quiz 1 '' then ''Quiz 1'' else s)
     [(''version'', PStr ''1.5''), (''description'', PStr ''  Quiz 1 '')] =
     Inr [(''version'', PStr ''1.5''), (''description'', PStr ''Quiz 1'')]"
  using sanitize_input_dict_strips
    [of "[(''version'', PStr ''1.5''), (''description'', PStr ''  Quiz 1 '')]" "''  Quiz 1 ''"
        "\<lambda>s. if s = ''  Quiz 1 '' then ''Quiz 1'' else s"]
  by (simp add: sanitize_input_dict_def dict_getitem_def)

text \<open>Without the key the method raises KeyError; on a value that is no string, AttributeError.\<close>

lemma sanitize_input_dict_raises:
  "map_of json_dict ''description'' = None \<Longrightarrow>
     sanitize_input_dict py_strip json_dict = Inl (KeyError ''description'')"
  "map_of json_dict ''description'' = Some v \<Longrightarrow> (\<forall>s. v \<noteq> PStr s) \<Longrightarrow>
     sanitize_input_dict py_strip json_dict = Inl AttributeError"
  by (cases v; simp add: sanitize_input_dict_def dict_getitem_def)+

lemma other_descriptions_falsy:
  "\<not> truthy key \<Longrightarrow> other_descriptions py_long key qs = Inr (map q_description qs)"
  by (induction qs) simp_all

lemma other_descriptions_long:
  "truthy key \<Longrightarrow> py_long key = Inr k \<Longrightarrow>
   other_descriptions py_long key qs = Inr (map q_description (filter (\<lambda>q. q_id q \<noteq> k) qs))"
  by (induction qs) simp_all

lemma other_descriptions_raises:
  "truthy key \<Longrightarrow> py_long key = Inl e \<Longrightarrow> qs \<noteq> [] \<Longrightarrow>
   other_descriptions py_long key qs = Inl e"
  by (cases qs) simp_all

text \<open>
  C2. When \<^verbatim>\<open>long(key)\<close> is defined for a non-empty key and the description is
  hashable, \<^verbatim>\<open>validate_no_description_collision\<close> appends its error exactly when
  some stored question has the description and either the key is falsy or the question's
  id differs from \<^verbatim>\<open>long(key)\<close>; otherwise the errors are unchanged.
\<close>

theorem validate_no_description_collision_iff:
  assumes key: "truthy key \<longrightarrow> py_long key = Inr k"
    and hashable: "(\<forall>xs. description \<noteq> PList xs) \<and> (\<forall>d. description \<noteq> PDict d)"
  shows "validate_no_description_collision py_long get_all description key errors =
           Inr (if \<exists>q\<in>set get_all. PStr (q_description q) = description \<and>
                     (\<not> truthy key \<or> q_id q \<noteq> k)
                then errors @ [''The description must be different from existing questions.'']
                else errors)"
proof (cases "truthy key")
  case False
  then have "other_descriptions py_long key get_all = Inr (map q_description get_all)"
    by (rule other_descriptions_falsy)
  then show ?thesis using False hashable
    by (cases description) (auto simp: validate_no_description_collision_def image_iff)
next
  case True
  then have "other_descriptions py_long key get_all =
      Inr (map q_description (filter (\<lambda>q. q_id q \<noteq> k) get_all))"
    using key by (simp add: other_descriptions_long)
  then show ?thesis using True hashable
    by (cases description) (auto simp: validate_no_description_collision_def image_iff)
qed

theorem validate_no_description_collision_iff_witness:
  "validate_no_description_collision
      (\<lambda>v. if v = PStr ''5'' then Inr 5 else Inl (ValueError ''invalid literal''))
      [\<lparr>q_id = 5, q_description = ''a''\<rparr>, \<lparr>q_id = 6, q_description = ''b''\<rparr>]
      (PStr ''b'') (PStr ''5'') [] =
      Inr [''The description must be different from existing questions.''] \<and>
   validate_no_description_collision
      (\<lambda>v. if v = PStr ''5'' then Inr 5 else Inl (ValueError ''invalid literal''))
      [\<lparr>q_id = 5, q_description = ''a''\<rparr>, \<lparr>q_id = 6, q_description = ''b''\<rparr>]
      (PStr ''a'') (PStr ''5'') [] = Inr []"
  using validate_no_description_collision_iff
    [of "PStr ''5''" "\<lambda>v. if v = PStr ''5'' then Inr 5 else Inl (ValueError ''invalid literal'')" 5
      "PStr ''b''" "[\<lparr>q_id = 5, q_description = ''a''\<rparr>, \<lparr>q_id = 6, q_description = ''b''\<rparr>]" "[]"]
    validate_no_description_collision_iff
    [of "PStr ''5''" "\<lambda>v. if v = PStr ''5'' then Inr 5 else Inl (ValueError ''invalid literal'')" 5
      "PStr ''a''" "[\<lparr>q_id = 5, q_description = ''a''\<rparr>, \<lparr>q_id = 6, q_description = ''b''\<rparr>]" "[]"]
  by simp

text \<open>
  With a non-empty key that \<^verbatim>\<open>long\<close> rejects and at least one stored question, the
  method raises what \<^verbatim>\<open>long\<close> raises.
\<close>

lemma validate_no_description_collision_raises:
  "truthy key \<Longrightarrow> py_long key = Inl e \<Longrightarrow> get_all \<noteq> [] \<Longrightarrow>
   validate_no_description_collision py_long get_all description key errors = Inl e"
  by (simp add: validate_no_description_collision_def other_descriptions_raises)

section \<open>GiftQuestionRESTHandler: conversion and grouping\<close>

text \<open>
  C3. \<^verbatim>\<open>create_group\<close> passes to \<^verbatim>\<open>create_question_group\<close> a record with the
  given description, an empty introduction and an \<^verbatim>\<open>'items'\<close> list that has one
  entry per question id, in the order of the ids, each entry being the dictionary with
  exactly the keys \<^verbatim>\<open>'question'\<close>, holding \<^verbatim>\<open>str(id)\<close>, and \<^verbatim>\<open>'weight'\<close>,
  holding 1.0.
\<close>

theorem create_group_items:
  "create_group f VERSION description question_ids =
     f (group_record VERSION description question_ids) \<and>
   map_of (group_record VERSION description question_ids) ''description'' = Some description \<and>
   map_of (group_record VERSION description question_ids) ''introduction'' = Some (PStr []) \<and>
   (\<exists>items. map_of (group_record VERSION description question_ids) ''items'' = Some (PList items) \<and>
      length items = length question_ids \<and>
      (\<forall>i<length question_ids. \<exists>entry. items ! i = PDict entry \<and>
         dom (map_of entry) = {''question'', ''weight''} \<and>
         map_of entry ''question'' = Some (PStr (str_int (question_ids ! i))) \<and>
         map_of entry ''weight'' = Some (PFloat (Finite 1.0))))"
  by (auto simp: create_group_def group_record_def)

theorem create_group_items_witness:
  "create_group (\<lambda>g. g) (PStr ''1.5'') (PStr ''Quiz'') [12, 7] =
     [(''version'', PStr ''1.5''), (''description'', PStr ''Quiz''), (''introduction'', PStr []),
      (''items'', PList [PDict [(''question'', PStr ''12''), (''weight'', PFloat (Finite 1.0))],
                         PDict [(''question'', PStr ''7''), (''weight'', PFloat (Finite 1.0))]])]"
  using create_group_items [of "\<lambda>g. g" "PStr ''1.5''" "PStr ''Quiz''" "[12, 7]"]
  by (simp add: group_record_def str_int_def str_nat.simps digit_char_def)

lemma convert_to_dtos_length: "length (convert_to_dtos VERSION questions) = length questions"
  by (induction questions) (simp_all add: Let_def)

lemma convert_to_dtos_nth:
  "i < length questions \<Longrightarrow>
   convert_to_dtos VERSION questions ! i =
     \<lparr>dto_id = None,
      dto_type = (if parsed_type (AList.update ''version'' VERSION (questions ! i)) = PStr ''multi_choice''
                  then MULTIPLE_CHOICE else SHORT_ANSWER),
      dto_dict = AList.update ''version'' VERSION (questions ! i)\<rparr>"
proof (induction questions arbitrary: i)
  case Nil
  then show ?case by simp
next
  case (Cons q qs)
  then show ?case by (cases i) (simp_all add: Let_def)
qed

lemma parsed_type_update_version:
  "parsed_type (AList.update ''version'' v q) = parsed_type q"
  by (simp add: parsed_type_def update_conv')

text \<open>
  C4. \<^verbatim>\<open>convert_to_dtos\<close> returns one DTO per question, in order; each DTO has no
  id, its dictionary is the question with \<^verbatim>\<open>'version'\<close> set to the DAO version and
  every other key unchanged, and its type is MULTIPLE_CHOICE exactly when the parsed
  \<^verbatim>\<open>'type'\<close> is the string \<^verbatim>\<open>'multi_choice'\<close>, SHORT_ANSWER in every other case.
\<close>

theorem convert_to_dtos_types:
  "length (convert_to_dtos VERSION questions) = length questions \<and>
   (\<forall>i<length questions.
      dto_id (convert_to_dtos VERSION questions ! i) = None \<and>
      map_of (dto_dict (convert_to_dtos VERSION questions ! i)) ''version'' = Some VERSION \<and>
      (\<forall>k. k \<noteq> ''version'' \<longrightarrow>
         map_of (dto_dict (convert_to_dtos VERSION questions ! i)) k = map_of (questions ! i) k) \<and>
      (dto_type (convert_to_dtos VERSION questions ! i) = MULTIPLE_CHOICE \<longleftrightarrow>
         map_of (questions ! i) ''type'' = Some (PStr ''multi_choice'')) \<and>
      (dto_type (convert_to_dtos VERSION questions ! i) = SHORT_ANSWER \<longleftrightarrow>
         map_of (questions ! i) ''type'' \<noteq> Some (PStr ''multi_choice'')))"
proof -
  have "parsed_type q = PStr ''multi_choice'' \<longleftrightarrow> map_of q ''type'' = Some (PStr ''multi_choice'')"
    for q
    by (simp add: parsed_type_def split: option.splits)
  then show ?thesis
    by (simp add: convert_to_dtos_length convert_to_dtos_nth parsed_type_update_version update_conv')
qed

theorem convert_to_dtos_types_witness:
  "map dto_type (convert_to_dtos (PStr ''1.5'')
      [[(''type'', PStr ''multi_choice''), (''question'', PStr ''q1'')],
       [(''type'', PStr ''numeric''), (''question'', PStr ''q2'')],
       [(''question'', PStr ''q3'')]]) = [MULTIPLE_CHOICE, SHORT_ANSWER, SHORT_ANSWER]"
  using convert_to_dtos_types [of "PStr ''1.5''"
      "[[(''type'', PStr ''multi_choice''), (''question'', PStr ''q1'')],
       [(''type'', PStr ''numeric''), (''question'', PStr ''q2'')],
       [(''question'', PStr ''q3'')]]"]
  by (simp add: parsed_type_def)

section \<open>GiftQuestionRESTHandler: validation\<close>




section \<open>McQuestionRESTHandler: the editor hook\<close>

text \<open>
  C9. For a dictionary object \<^verbatim>\<open>q_dict\<close>, \<^verbatim>\<open>transform_for_editor_hook\<close> returns a
  newly allocated object. Every object that existed before the call, \<^verbatim>\<open>q_dict\<close>
  among them, is unmodified. The new dictionary agrees with \<^verbatim>\<open>q_dict\<close> on every
  key but \<^verbatim>\<open>'multiple_selections'\<close>, which holds \<^verbatim>\<open>'true'\<close> when the input value
  is truthy and \<^verbatim>\<open>'false'\<close> otherwise, also when the key is absent.
\<close>

theorem transform_for_editor_hook_copy:
  assumes "q_dict < next_free h" and "cells h q_dict = PDict d"
  shows "\<exists>h' p_dict p. transform_for_editor_hook h q_dict = Inr (h', p_dict) \<and>
           p_dict = next_free h \<and> next_free h' = Suc (next_free h) \<and>
           (\<forall>a<next_free h. cells h' a = cells h a) \<and>
           cells h' p_dict = PDict p \<and>
           map_of p ''multiple_selections'' =
             Some (PStr (if truthy (case map_of d ''multiple_selections'' of
                                      None \<Rightarrow> PNone | Some v \<Rightarrow> v)
                         then ''true'' else ''false'')) \<and>
           (\<forall>k. k \<noteq> ''multiple_selections'' \<longrightarrow> map_of p k = map_of d k)"
  using assms
  by (simp add: transform_for_editor_hook_def deepcopy_def update_conv')

theorem transform_for_editor_hook_copy_witness:
  "\<exists>h'. transform_for_editor_hook
      \<lparr>cells = (\<lambda>a. if a = 0 then PDict [(''question'', PStr ''q''), (''multiple_selections'', PBool True)] else PNone),
       next_free = 1\<rparr> 0 = Inr (h', 1) \<and>
     cells h' 0 = PDict [(''question'', PStr ''q''), (''multiple_selections'', PBool True)] \<and>
     cells h' 1 = PDict [(''question'', PStr ''q''), (''multiple_selections'', PStr ''true'')]"
  using transform_for_editor_hook_copy
    [of 0 "\<lparr>cells = (\<lambda>a. if a = 0 then PDict [(''question'', PStr ''q''), (''multiple_selections'', PBool True)] else PNone),
       next_free = 1\<rparr>" "[(''question'', PStr ''q''), (''multiple_selections'', PBool True)]"]
  by (simp add: transform_for_editor_hook_def deepcopy_def)

section \<open>Numbered messages\<close>

text \<open>
  The decimal rendering of an index is injective and holds no space, so two of the
  numbered messages are equal only when their numbers and their texts are.
\<close>

lemma str_nat_nonempty: "str_nat n \<noteq> []"
  by (subst str_nat.simps) simp

lemma digit_char_inj:
  assumes "a < 10" and "b < 10" and "digit_char a = digit_char b"
  shows "a = b"
proof -
  have "distinct ''0123456789''" by simp
  moreover have "a < length ''0123456789''" "b < length ''0123456789''" using assms by simp_all
  ultimately show ?thesis using assms(3) unfolding digit_char_def
    by (simp only: nth_eq_iff_index_eq)
qed

lemma digit_char_not_space: "n < 10 \<Longrightarrow> digit_char n \<noteq> CHR '' ''"
proof -
  assume "n < 10"
  then have "digit_char n \<in> set ''0123456789''"
    unfolding digit_char_def by (intro nth_mem) simp
  then show ?thesis by auto
qed

lemma str_nat_no_space: "c \<in> set (str_nat n) \<Longrightarrow> c \<noteq> CHR '' ''"
proof (induction n rule: str_nat.induct)
  case (1 n)
  show ?case
  proof (cases "n < 10")
    case True
    then show ?thesis using "1.prems" digit_char_not_space [of n]
      by (subst (asm) str_nat.simps) auto
  next
    case False
    then have "c \<in> set (str_nat (n div 10)) \<or> c = digit_char (n mod 10)"
      using "1.prems" by (subst (asm) str_nat.simps) auto
    then show ?thesis
      using "1.IH" [OF False] digit_char_not_space [of "n mod 10"] by auto
  qed
qed

lemma str_nat_inj: "str_nat a = str_nat b \<Longrightarrow> a = b"
proof (induction a arbitrary: b rule: str_nat.induct)
  case (1 a)
  show ?case
  proof (cases "a < 10")
    case a: True
    show ?thesis
    proof (cases "b < 10")
      case True
      then show ?thesis using a "1.prems" digit_char_inj [of a b]
        by (simp add: str_nat.simps [of a] str_nat.simps [of b])
    next
      case False
      then have "[digit_char a] = str_nat (b div 10) @ [digit_char (b mod 10)]"
        using a "1.prems" by (simp add: str_nat.simps [of a] str_nat.simps [of b])
      then show ?thesis using str_nat_nonempty [of "b div 10"] by simp
    qed
  next
    case a: False
    show ?thesis
    proof (cases "b < 10")
      case True
      then have "str_nat (a div 10) @ [digit_char (a mod 10)] = [digit_char b]"
        using a "1.prems" by (simp add: str_nat.simps [of a] str_nat.simps [of b])
      then show ?thesis using str_nat_nonempty [of "a div 10"] by simp
    next
      case False
      then have "str_nat (a div 10) @ [digit_char (a mod 10)] =
                 str_nat (b div 10) @ [digit_char (b mod 10)]"
        using a "1.prems" by (simp add: str_nat.simps [of a] str_nat.simps [of b])
      then have e: "str_nat (a div 10) = str_nat (b div 10)"
        and m: "digit_char (a mod 10) = digit_char (b mod 10)" by simp_all
      have "a div 10 = b div 10" using "1.IH" [OF a e] .
      moreover have "a mod 10 = b mod 10" using digit_char_inj [OF _ _ m] by simp
      ultimately show ?thesis by (metis div_mult_mod_eq)
    qed
  qed
qed

lemma split_at_space:
  assumes "\<forall>c\<in>set xs. c \<noteq> CHR '' ''" and "\<forall>c\<in>set ys. c \<noteq> CHR '' ''"
    and "xs @ CHR '' '' # r = ys @ CHR '' '' # r'"
  shows "xs = ys \<and> r = r'"
proof -
  have "takeWhile (\<lambda>c. c \<noteq> CHR '' '') (xs @ CHR '' '' # r) = xs"
    using assms(1) by (simp add: takeWhile_append2)
  moreover have "takeWhile (\<lambda>c. c \<noteq> CHR '' '') (ys @ CHR '' '' # r') = ys"
    using assms(2) by (simp add: takeWhile_append2)
  ultimately have "xs = ys" using assms(3) by simp
  then show ?thesis using assms(3) by simp
qed

lemma numbered_msg_eq:
  assumes "p @ str_nat a @ CHR '' '' # r = p @ str_nat b @ CHR '' '' # r'"
  shows "a = b \<and> r = r'"
proof -
  have "str_nat a @ CHR '' '' # r = str_nat b @ CHR '' '' # r'" using assms by simp
  then have "str_nat a = str_nat b \<and> r = r'"
    by (intro split_at_space) (auto dest: str_nat_no_space)
  then show ?thesis by (simp add: str_nat_inj)
qed


section \<open>McQuestionRESTHandler: validation\<close>

text \<open>What one iteration of the loop over the choices does on a well-formed choice.\<close>

lemma mc_check_choice_typed:
  assumes "map_of entries ''text'' = Some (PStr t)" and "map_of entries ''score'' = Some score"
  shows "mc_check_choice py_strip py_float index (PDict entries) errors =
     (case py_float score of
        Inl (ValueError m) \<Rightarrow>
          Inr (PDict entries,
               errors @
               (if py_strip t = []
                then [''Choice '' @ str_nat (index + 1) @ '' has no response text.''] else []) @
               [''Choice '' @ str_nat (index + 1) @ '' must have a numeric score.''])
      | Inl e \<Rightarrow> Inl e
      | Inr f \<Rightarrow>
          Inr (PDict (AList.update ''score'' (PFloat f) entries),
               errors @
               (if py_strip t = []
                then [''Choice '' @ str_nat (index + 1) @ '' has no response text.''] else [])))"
proof (cases "py_float score")
  case (Inr f)
  then show ?thesis using assms by (simp add: mc_check_choice_def dict_getitem_def)
next
  case (Inl e)
  then show ?thesis using assms by (cases e) (simp_all add: mc_check_choice_def dict_getitem_def)
qed

lemma mc_check_choice_Inr:
  assumes "mc_check_choice py_strip py_float index choice errors = Inr (choice', errors')"
  shows "\<exists>entries t score.
           choice = PDict entries \<and> map_of entries ''text'' = Some (PStr t) \<and>
           map_of entries ''score'' = Some score \<and>
           ((\<exists>m. py_float score = Inl (ValueError m) \<and> choice' = choice \<and>
                 errors' = errors @
                   (if py_strip t = []
                    then [''Choice '' @ str_nat (index + 1) @ '' has no response text.''] else []) @
                   [''Choice '' @ str_nat (index + 1) @ '' must have a numeric score.'']) \<or>
            (\<exists>f. py_float score = Inr f \<and>
                 choice' = PDict (AList.update ''score'' (PFloat f) entries) \<and>
                 errors' = errors @
                   (if py_strip t = []
                    then [''Choice '' @ str_nat (index + 1) @ '' has no response text.''] else [])))"
proof -
  obtain entries where c: "choice = PDict entries"
    using assms by (cases choice) (simp_all add: mc_check_choice_def)
  obtain tv where tv: "map_of entries ''text'' = Some tv"
    using assms c by (cases "map_of entries ''text''") (simp_all add: mc_check_choice_def dict_getitem_def)
  obtain t where t: "tv = PStr t"
    using assms c tv by (cases tv) (simp_all add: mc_check_choice_def dict_getitem_def)
  obtain score where s: "map_of entries ''score'' = Some score"
    using assms c tv t
    by (cases "map_of entries ''score''") (simp_all add: mc_check_choice_def dict_getitem_def Let_def)
  note eq = mc_check_choice_typed [OF tv [unfolded t] s, of py_strip py_float index errors]
  show ?thesis
  proof (cases "py_float score")
    case (Inr f)
    then show ?thesis using assms eq c tv t s by auto
  next
    case (Inl e)
    then show ?thesis using assms eq c tv t s by (cases e) auto
  qed
qed

lemma mc_check_choice_frame:
  assumes "mc_check_choice py_strip py_float index choice errors = Inr (choice', errors')"
  shows "\<exists>new. errors' = errors @ new \<and>
           mc_check_choice py_strip py_float index choice [] = Inr (choice', new)"
proof -
  from mc_check_choice_Inr [OF assms] obtain entries t score where
    c: "choice = PDict entries" and t: "map_of entries ''text'' = Some (PStr t)" and
    s: "map_of entries ''score'' = Some score" and
    r: "(\<exists>m. py_float score = Inl (ValueError m) \<and> choice' = choice \<and>
                 errors' = errors @
                   (if py_strip t = []
                    then [''Choice '' @ str_nat (index + 1) @ '' has no response text.''] else []) @
                   [''Choice '' @ str_nat (index + 1) @ '' must have a numeric score.'']) \<or>
            (\<exists>f. py_float score = Inr f \<and>
                 choice' = PDict (AList.update ''score'' (PFloat f) entries) \<and>
                 errors' = errors @
                   (if py_strip t = []
                    then [''Choice '' @ str_nat (index + 1) @ '' has no response text.''] else []))"
    by blast
  from r show ?thesis
    using c by (auto simp: mc_check_choice_typed [OF t s])
qed

lemma mc_choices_loop_Inr:
  assumes "mc_choices_loop py_strip py_float i0 cs errors = Inr (cs', errors')"
  shows "length cs' = length cs \<and>
         (\<exists>news. length news = length cs \<and> errors' = errors @ concat news \<and>
            (\<forall>j<length cs. mc_check_choice py_strip py_float (i0 + j) (cs ! j) [] =
                              Inr (cs' ! j, news ! j)))"
  using assms
proof (induction cs arbitrary: i0 errors cs' errors')
  case Nil
  then show ?case by simp
next
  case (Cons c cs)
  from Cons.prems obtain c' errors1 where
    1: "mc_check_choice py_strip py_float i0 c errors = Inr (c', errors1)"
    by (auto split: sum.splits)
  from Cons.prems 1 obtain rest' where
    2: "mc_choices_loop py_strip py_float (i0 + 1) cs errors1 = Inr (rest', errors')"
    and cs': "cs' = c' # rest'"
    by (auto split: sum.splits)
  from mc_check_choice_frame [OF 1] obtain new where
    n: "errors1 = errors @ new" and b: "mc_check_choice py_strip py_float i0 c [] = Inr (c', new)"
    by blast
  from Cons.IH [OF 2] obtain news where
    l: "length rest' = length cs" and ln: "length news = length cs" and
    e: "errors' = errors1 @ concat news" and
    a: "\<forall>j<length cs. mc_check_choice py_strip py_float (i0 + 1 + j) (cs ! j) [] =
          Inr (rest' ! j, news ! j)"
    by blast
  have "\<forall>j<length (c # cs). mc_check_choice py_strip py_float (i0 + j) ((c # cs) ! j) [] =
          Inr (cs' ! j, (new # news) ! j)"
  proof (intro allI impI)
    fix j assume "j < length (c # cs)"
    then show "mc_check_choice py_strip py_float (i0 + j) ((c # cs) ! j) [] =
                 Inr (cs' ! j, (new # news) ! j)"
      using a b cs' by (cases j) simp_all
  qed
  moreover have "errors' = errors @ concat (new # news)" using n e by simp
  moreover have "length (new # news) = length (c # cs)" using ln by simp
  moreover have "length cs' = length (c # cs)" using l cs' by simp
  ultimately show ?case by blast
qed

text \<open>The loop returns when every iteration does.\<close>

lemma mc_choices_loop_returns:
  assumes "length cs' = length cs" and "length news = length cs"
    and "\<forall>j<length cs. mc_check_choice py_strip py_float (i0 + j) (cs ! j) [] =
                              Inr (cs' ! j, news ! j)"
  shows "mc_choices_loop py_strip py_float i0 cs errors = Inr (cs', errors @ concat news)"
  using assms
proof (induction cs arbitrary: i0 errors cs' news)
  case Nil
  then show ?case by simp
next
  case (Cons c cs)
  then obtain c' rest' where cs': "cs' = c' # rest'" by (cases cs') auto
  from Cons.prems obtain new news' where news: "news = new # news'" by (cases news) auto
  have h: "mc_check_choice py_strip py_float i0 c [] = Inr (c', new)"
    using Cons.prems(3) [rule_format, of 0] cs' news by simp
  from mc_check_choice_Inr [OF h] obtain entries t score where
    c: "c = PDict entries" and t: "map_of entries ''text'' = Some (PStr t)" and
    s: "map_of entries ''score'' = Some score" by blast
  have 1: "mc_check_choice py_strip py_float i0 c errors = Inr (c', errors @ new)"
    using h c by (auto simp: mc_check_choice_typed [OF t s] split: sum.splits exn.splits)
  have "\<forall>j<length cs. mc_check_choice py_strip py_float (i0 + 1 + j) (cs ! j) [] =
          Inr (rest' ! j, news' ! j)"
  proof (intro allI impI)
    fix j assume "j < length cs"
    then show "mc_check_choice py_strip py_float (i0 + 1 + j) (cs ! j) [] =
                 Inr (rest' ! j, news' ! j)"
      using Cons.prems(3) [rule_format, of "Suc j"] cs' news by simp
  qed
  then have "mc_choices_loop py_strip py_float (i0 + 1) cs (errors @ new) =
               Inr (rest', (errors @ new) @ concat news')"
    using Cons.prems(1,2) cs' news by (intro Cons.IH) simp_all
  then show ?case using 1 cs' news by simp
qed


lemma if_append: "(if c then xs @ [m] else xs) = xs @ (if c then [m] else [])"
  by simp

lemma collision_shape:
  assumes "validate_no_description_collision py_long get_all d key errors = Inr errors3"
  shows "\<exists>col. errors3 = errors @ col \<and>
           (col = [] \<or> col = [''The description must be different from existing questions.'']) \<and>
           (\<forall>E. validate_no_description_collision py_long get_all d key E = Inr (E @ col))"
  using assms
  by (auto simp: validate_no_description_collision_def split: sum.splits if_splits)

lemma no_collision:
  assumes run: "validate_no_description_collision py_long get_all (PStr d) key errors = Inr errors3"
    and own: "\<forall>q\<in>set get_all. q_description q = d \<longrightarrow> truthy key \<and> py_long key = Inr (q_id q)"
  shows "errors3 = errors"
proof (cases "truthy key")
  case False
  then have "other_descriptions py_long key get_all = Inr (map q_description get_all)"
    by (rule other_descriptions_falsy)
  moreover have "d \<notin> q_description ` set get_all" using own False by auto
  ultimately show ?thesis using run by (simp add: validate_no_description_collision_def)
next
  case True
  show ?thesis
  proof (cases "get_all = []")
    case True
    then show ?thesis using run by (simp add: validate_no_description_collision_def)
  next
    case ne: False
    show ?thesis
    proof (cases "py_long key")
      case (Inl e)
      then show ?thesis
        using run True ne other_descriptions_raises [of key py_long e get_all]
        by (simp add: validate_no_description_collision_def)
    next
      case (Inr k)
      then have "other_descriptions py_long key get_all =
          Inr (map q_description (filter (\<lambda>q. q_id q \<noteq> k) get_all))"
        using True by (simp add: other_descriptions_long)
      moreover have "d \<notin> q_description ` {q \<in> set get_all. q_id q \<noteq> k}"
        using own Inr by auto
      ultimately show ?thesis using run by (simp add: validate_no_description_collision_def)
    qed
  qed
qed

lemma Mc_validate15_structure:
  assumes run: "Mc_validate15 py_strip py_long py_float get_all question_dict key errors =
                  Inr (question_dict', errors')"
    and choices: "map_of question_dict ''choices'' = Some (PList cs)"
  shows "\<exists>q d cs' col news.
           map_of question_dict ''question'' = Some (PStr q) \<and>
           map_of question_dict ''description'' = Some d \<and>
           question_dict' = AList.update ''choices'' (PList cs') question_dict \<and>
           length cs' = length cs \<and> length news = length cs \<and>
           errors' = errors @
              ((if py_strip q = [] then [''The question must have a non-empty body.''] else []) @
               (if \<not> truthy d then [''The description must be non-empty.''] else []) @
               col @
               (if cs = [] then [''The question must have at least one choice.''] else [])) @
              concat news \<and>
           (col = [] \<or> col = [''The description must be different from existing questions.'']) \<and>
           (\<forall>E. validate_no_description_collision py_long get_all d key E = Inr (E @ col)) \<and>
           (\<forall>j<length cs. mc_check_choice py_strip py_float j (cs ! j) [] = Inr (cs' ! j, news ! j))"
proof -
  obtain qv where qv: "map_of question_dict ''question'' = Some qv"
    using run by (cases "map_of question_dict ''question''") (simp_all add: Mc_validate15_def dict_getitem_def)
  obtain q where q: "qv = PStr q"
    using run qv by (cases qv) (simp_all add: Mc_validate15_def dict_getitem_def)
  obtain d where d: "map_of question_dict ''description'' = Some d"
    using run qv q
    by (cases "map_of question_dict ''description''")
       (simp_all add: Mc_validate15_def dict_getitem_def Let_def)
  let ?E2 = "errors @ (if py_strip q = [] then [''The question must have a non-empty body.''] else []) @
               (if \<not> truthy d then [''The description must be non-empty.''] else [])"
  obtain errors3 where
    v: "validate_no_description_collision py_long get_all d key ?E2 = Inr errors3"
    using run qv q d
    by (cases "validate_no_description_collision py_long get_all d key ?E2")
       (simp_all add: Mc_validate15_def dict_getitem_def Let_def if_append split del: if_split)
  from collision_shape [OF v] obtain col where
    col: "errors3 = ?E2 @ col"
      "col = [] \<or> col = [''The description must be different from existing questions.'']"
      "\<forall>E. validate_no_description_collision py_long get_all d key E = Inr (E @ col)"
    by blast
  let ?E4 = "errors3 @ (if cs = [] then [''The question must have at least one choice.''] else [])"
  have step: "(case mc_choices_loop py_strip py_float 0 cs ?E4 of
             Inl e \<Rightarrow> Inl e
           | Inr (cs', errors5) \<Rightarrow>
               Inr (AList.update ''choices'' (PList cs') question_dict, errors5)) =
      Inr (question_dict', errors')"
    using run qv q d v choices
    by (simp add: Mc_validate15_def dict_getitem_def Let_def if_append split del: if_split
             split: sum.splits prod.splits)
  then obtain cs' where
    l: "mc_choices_loop py_strip py_float 0 cs ?E4 = Inr (cs', errors')" and
    qd': "question_dict' = AList.update ''choices'' (PList cs') question_dict"
    by (cases "mc_choices_loop py_strip py_float 0 cs ?E4") auto
  from mc_choices_loop_Inr [OF l] obtain news where
    n: "length cs' = length cs" "length news = length cs" "errors' = ?E4 @ concat news"
      "\<forall>j<length cs. mc_check_choice py_strip py_float (0 + j) (cs ! j) [] = Inr (cs' ! j, news ! j)"
    by blast
  have "errors' = errors @
              ((if py_strip q = [] then [''The question must have a non-empty body.''] else []) @
               (if \<not> truthy d then [''The description must be non-empty.''] else []) @
               col @
               (if cs = [] then [''The question must have at least one choice.''] else [])) @
              concat news"
    using n(3) col(1) by simp
  then show ?thesis using qv q d qd' n col by auto
qed


lemma choice_msgs_distinct:
  "(''Choice '' @ str_nat a @ '' has no response text.'' =
    ''Choice '' @ str_nat b @ '' has no response text.'') = (a = b)"
  "(''Choice '' @ str_nat a @ '' must have a numeric score.'' =
    ''Choice '' @ str_nat b @ '' must have a numeric score.'') = (a = b)"
  "''Choice '' @ str_nat a @ '' has no response text.'' \<noteq>
    ''Choice '' @ str_nat b @ '' must have a numeric score.''"
  "''Choice '' @ str_nat a @ '' must have a numeric score.'' \<noteq>
    ''Choice '' @ str_nat b @ '' has no response text.''"
  using numbered_msg_eq [of "''Choice ''" a "''has no response text.''" b "''has no response text.''"]
    numbered_msg_eq [of "''Choice ''" a "''must have a numeric score.''" b "''must have a numeric score.''"]
    numbered_msg_eq [of "''Choice ''" a "''has no response text.''" b "''must have a numeric score.''"]
    numbered_msg_eq [of "''Choice ''" a "''must have a numeric score.''" b "''has no response text.''"]
  by auto

lemma mc_check_choice_new:
  assumes "mc_check_choice py_strip py_float i c [] = Inr (c', new)"
  shows "\<exists>entries t score.
      c = PDict entries \<and> map_of entries ''text'' = Some (PStr t) \<and>
      map_of entries ''score'' = Some score \<and>
      ((''Choice '' @ str_nat (i + 1) @ '' has no response text.'') \<in> set new \<longleftrightarrow> py_strip t = []) \<and>
      ((''Choice '' @ str_nat (i + 1) @ '' must have a numeric score.'') \<in> set new \<longleftrightarrow>
         (\<exists>m. py_float score = Inl (ValueError m))) \<and>
      (\<forall>m\<in>set new. m = ''Choice '' @ str_nat (i + 1) @ '' has no response text.'' \<or>
                     m = ''Choice '' @ str_nat (i + 1) @ '' must have a numeric score.'') \<and>
      (\<forall>f. py_float score = Inr f \<longrightarrow> c' = PDict (AList.update ''score'' (PFloat f) entries)) \<and>
      ((\<exists>m. py_float score = Inl (ValueError m)) \<longrightarrow> c' = c) \<and>
      (py_strip t \<noteq> [] \<and> (\<exists>f. py_float score = Inr f) \<longrightarrow> new = [])"
proof -
  from mc_check_choice_Inr [OF assms] obtain entries t score where
    c: "c = PDict entries" and t: "map_of entries ''text'' = Some (PStr t)" and
    s: "map_of entries ''score'' = Some score" and
    r: "(\<exists>m. py_float score = Inl (ValueError m) \<and> c' = c \<and>
                 new = [] @
                   (if py_strip t = []
                    then [''Choice '' @ str_nat (i + 1) @ '' has no response text.''] else []) @
                   [''Choice '' @ str_nat (i + 1) @ '' must have a numeric score.'']) \<or>
            (\<exists>f. py_float score = Inr f \<and>
                 c' = PDict (AList.update ''score'' (PFloat f) entries) \<and>
                 new = [] @
                   (if py_strip t = []
                    then [''Choice '' @ str_nat (i + 1) @ '' has no response text.''] else []))"
    by blast
  from r have "((''Choice '' @ str_nat (i + 1) @ '' has no response text.'') \<in> set new \<longleftrightarrow> py_strip t = []) \<and>
      ((''Choice '' @ str_nat (i + 1) @ '' must have a numeric score.'') \<in> set new \<longleftrightarrow>
         (\<exists>m. py_float score = Inl (ValueError m))) \<and>
      (\<forall>m\<in>set new. m = ''Choice '' @ str_nat (i + 1) @ '' has no response text.'' \<or>
                     m = ''Choice '' @ str_nat (i + 1) @ '' must have a numeric score.'') \<and>
      (\<forall>f. py_float score = Inr f \<longrightarrow> c' = PDict (AList.update ''score'' (PFloat f) entries)) \<and>
      ((\<exists>m. py_float score = Inl (ValueError m)) \<longrightarrow> c' = c) \<and>
      (py_strip t \<noteq> [] \<and> (\<exists>f. py_float score = Inr f) \<longrightarrow> new = [])"
  proof
    assume "\<exists>m. py_float score = Inl (ValueError m) \<and> c' = c \<and>
                 new = [] @
                   (if py_strip t = []
                    then [''Choice '' @ str_nat (i + 1) @ '' has no response text.''] else []) @
                   [''Choice '' @ str_nat (i + 1) @ '' must have a numeric score.'']"
    then show ?thesis using choice_msgs_distinct(3) [of "i + 1" "i + 1"] by auto
  next
    assume "\<exists>f. py_float score = Inr f \<and>
                 c' = PDict (AList.update ''score'' (PFloat f) entries) \<and>
                 new = [] @
                   (if py_strip t = []
                    then [''Choice '' @ str_nat (i + 1) @ '' has no response text.''] else [])"
    then show ?thesis using choice_msgs_distinct(4) [of "i + 1" "i + 1"] by auto
  qed
  then show ?thesis using c t s by blast
qed

text \<open>The method returns on a well-formed dictionary.\<close>

lemma mc_choices_loop_total:
  assumes "\<forall>c\<in>set cs. \<exists>entries t score.
             c = PDict entries \<and> map_of entries ''text'' = Some (PStr t) \<and>
             map_of entries ''score'' = Some score \<and>
             ((\<exists>f. py_float score = Inr f) \<or> (\<exists>m. py_float score = Inl (ValueError m)))"
  shows "\<exists>cs' errors'. mc_choices_loop py_strip py_float i0 cs errors = Inr (cs', errors')"
  using assms
proof (induction cs arbitrary: i0 errors)
  case Nil
  then show ?case by simp
next
  case (Cons c cs)
  from Cons.prems obtain entries t score where
    c: "c = PDict entries" and t: "map_of entries ''text'' = Some (PStr t)" and
    s: "map_of entries ''score'' = Some score" and
    f: "(\<exists>f. py_float score = Inr f) \<or> (\<exists>m. py_float score = Inl (ValueError m))"
    by auto
  from f obtain c' errors1 where
    1: "mc_check_choice py_strip py_float i0 c errors = Inr (c', errors1)"
    unfolding c mc_check_choice_typed [OF t s] by auto
  from Cons.prems have "\<forall>c\<in>set cs. \<exists>entries t score.
             c = PDict entries \<and> map_of entries ''text'' = Some (PStr t) \<and>
             map_of entries ''score'' = Some score \<and>
             ((\<exists>f. py_float score = Inr f) \<or> (\<exists>m. py_float score = Inl (ValueError m)))"
    by simp
  from Cons.IH [OF this, of "i0 + 1" errors1] obtain cs' errors' where
    "mc_choices_loop py_strip py_float (i0 + 1) cs errors1 = Inr (cs', errors')" by blast
  then show ?case using 1 by simp
qed

lemma validate_no_description_collision_total:
  assumes "truthy key \<longrightarrow> py_long key = Inr k"
  shows "\<exists>errors3. validate_no_description_collision py_long get_all (PStr d) key errors = Inr errors3"
proof (cases "truthy key")
  case False
  then have "other_descriptions py_long key get_all = Inr (map q_description get_all)"
    by (rule other_descriptions_falsy)
  then show ?thesis by (simp add: validate_no_description_collision_def)
next
  case True
  then have "other_descriptions py_long key get_all =
      Inr (map q_description (filter (\<lambda>q. q_id q \<noteq> k) get_all))"
    using assms by (simp add: other_descriptions_long)
  then show ?thesis by (simp add: validate_no_description_collision_def)
qed

lemma Mc_validate15_returns:
  assumes q: "map_of question_dict ''question'' = Some (PStr q)"
    and d: "map_of question_dict ''description'' = Some (PStr d)"
    and key: "truthy key \<longrightarrow> py_long key = Inr k"
    and choices: "map_of question_dict ''choices'' = Some (PList cs)"
    and wf: "\<forall>c\<in>set cs. \<exists>entries t score.
             c = PDict entries \<and> map_of entries ''text'' = Some (PStr t) \<and>
             map_of entries ''score'' = Some score \<and>
             ((\<exists>f. py_float score = Inr f) \<or> (\<exists>m. py_float score = Inl (ValueError m)))"
  shows "\<exists>question_dict' errors'.
           Mc_validate15 py_strip py_long py_float get_all question_dict key errors =
             Inr (question_dict', errors')"
proof -
  let ?E2 = "errors @ (if py_strip q = [] then [''The question must have a non-empty body.''] else []) @
               (if \<not> truthy (PStr d) then [''The description must be non-empty.''] else [])"
  from validate_no_description_collision_total [of key py_long k get_all d ?E2] key
  obtain errors3 where
    v: "validate_no_description_collision py_long get_all (PStr d) key ?E2 = Inr errors3"
    by blast
  let ?E4 = "errors3 @ (if cs = [] then [''The question must have at least one choice.''] else [])"
  from mc_choices_loop_total [OF wf] obtain cs' errors' where
    l: "mc_choices_loop py_strip py_float 0 cs ?E4 = Inr (cs', errors')" by blast
  have "Mc_validate15 py_strip py_long py_float get_all question_dict key errors =
          Inr (AList.update ''choices'' (PList cs') question_dict, errors')"
    using q d choices v l
    by (simp add: Mc_validate15_def dict_getitem_def Let_def if_append split del: if_split)
  then show ?thesis by blast
qed

text \<open>
  Which iteration a numbered message comes from, and that the fixed messages come from none.
\<close>

lemma news_members:
  assumes ln: "length news = length cs"
    and each: "\<forall>j<length cs. mc_check_choice py_strip py_float j (cs ! j) [] = Inr (cs' ! j, news ! j)"
    and m: "m \<in> set (concat news)"
  shows "\<exists>j<length cs. m \<in> set (news ! j) \<and>
           (m = ''Choice '' @ str_nat (j + 1) @ '' has no response text.'' \<or>
            m = ''Choice '' @ str_nat (j + 1) @ '' must have a numeric score.'')"
proof -
  from m obtain n where n: "n \<in> set news" "m \<in> set n" by auto
  then obtain j where j: "j < length news" "news ! j = n" by (auto simp: in_set_conv_nth)
  then have jl: "j < length cs" using ln by simp
  from each jl have "mc_check_choice py_strip py_float j (cs ! j) [] = Inr (cs' ! j, news ! j)"
    by blast
  from mc_check_choice_new [OF this] have
    "\<forall>m\<in>set (news ! j). m = ''Choice '' @ str_nat (j + 1) @ '' has no response text.'' \<or>
                     m = ''Choice '' @ str_nat (j + 1) @ '' must have a numeric score.''"
    by blast
  then show ?thesis using n j jl by blast
qed

lemma news_text_iff:
  assumes ln: "length news = length cs"
    and each: "\<forall>j<length cs. mc_check_choice py_strip py_float j (cs ! j) [] = Inr (cs' ! j, news ! j)"
    and i: "i < length cs"
  shows "(''Choice '' @ str_nat (i + 1) @ '' has no response text.'') \<in> set (concat news) \<longleftrightarrow>
         (''Choice '' @ str_nat (i + 1) @ '' has no response text.'') \<in> set (news ! i)"
proof
  assume "(''Choice '' @ str_nat (i + 1) @ '' has no response text.'') \<in> set (concat news)"
  from news_members [OF ln each this] obtain j where
    j: "j < length cs" "(''Choice '' @ str_nat (i + 1) @ '' has no response text.'') \<in> set (news ! j)"
      "''Choice '' @ str_nat (i + 1) @ '' has no response text.'' =
         ''Choice '' @ str_nat (j + 1) @ '' has no response text.'' \<or>
       ''Choice '' @ str_nat (i + 1) @ '' has no response text.'' =
         ''Choice '' @ str_nat (j + 1) @ '' must have a numeric score.''"
    by blast
  from j(3) have "i + 1 = j + 1"
    using choice_msgs_distinct(1) [of "i + 1" "j + 1"] choice_msgs_distinct(3) [of "i + 1" "j + 1"]
    by blast
  then show "(''Choice '' @ str_nat (i + 1) @ '' has no response text.'') \<in> set (news ! i)"
    using j(2) by simp
next
  assume "(''Choice '' @ str_nat (i + 1) @ '' has no response text.'') \<in> set (news ! i)"
  moreover have "news ! i \<in> set news" using i ln by simp
  ultimately show "(''Choice '' @ str_nat (i + 1) @ '' has no response text.'') \<in> set (concat news)"
    by auto
qed

lemma news_score_iff:
  assumes ln: "length news = length cs"
    and each: "\<forall>j<length cs. mc_check_choice py_strip py_float j (cs ! j) [] = Inr (cs' ! j, news ! j)"
    and i: "i < length cs"
  shows "(''Choice '' @ str_nat (i + 1) @ '' must have a numeric score.'') \<in> set (concat news) \<longleftrightarrow>
         (''Choice '' @ str_nat (i + 1) @ '' must have a numeric score.'') \<in> set (news ! i)"
proof
  assume "(''Choice '' @ str_nat (i + 1) @ '' must have a numeric score.'') \<in> set (concat news)"
  from news_members [OF ln each this] obtain j where
    j: "j < length cs" "(''Choice '' @ str_nat (i + 1) @ '' must have a numeric score.'') \<in> set (news ! j)"
      "''Choice '' @ str_nat (i + 1) @ '' must have a numeric score.'' =
         ''Choice '' @ str_nat (j + 1) @ '' has no response text.'' \<or>
       ''Choice '' @ str_nat (i + 1) @ '' must have a numeric score.'' =
         ''Choice '' @ str_nat (j + 1) @ '' must have a numeric score.''"
    by blast
  from j(3) have "i + 1 = j + 1"
    using choice_msgs_distinct(2) [of "i + 1" "j + 1"] choice_msgs_distinct(4) [of "i + 1" "j + 1"]
    by blast
  then show "(''Choice '' @ str_nat (i + 1) @ '' must have a numeric score.'') \<in> set (news ! i)"
    using j(2) by simp
next
  assume "(''Choice '' @ str_nat (i + 1) @ '' must have a numeric score.'') \<in> set (news ! i)"
  moreover have "news ! i \<in> set news" using i ln by simp
  ultimately show "(''Choice '' @ str_nat (i + 1) @ '' must have a numeric score.'') \<in> set (concat news)"
    by auto
qed

lemma fixed_not_in_news:
  assumes ln: "length news = length cs"
    and each: "\<forall>j<length cs. mc_check_choice py_strip py_float j (cs ! j) [] = Inr (cs' ! j, news ! j)"
  shows "''The question must have a non-empty body.'' \<notin> set (concat news)"
    "''The description must be non-empty.'' \<notin> set (concat news)"
    "''The question must have at least one choice.'' \<notin> set (concat news)"
proof -
  show "''The question must have a non-empty body.'' \<notin> set (concat news)"
  proof
    assume "''The question must have a non-empty body.'' \<in> set (concat news)"
    from news_members [OF ln each this] show False by simp
  qed
  show "''The description must be non-empty.'' \<notin> set (concat news)"
  proof
    assume "''The description must be non-empty.'' \<in> set (concat news)"
    from news_members [OF ln each this] show False by simp
  qed
  show "''The question must have at least one choice.'' \<notin> set (concat news)"
  proof
    assume "''The question must have at least one choice.'' \<in> set (concat news)"
    from news_members [OF ln each this] show False by simp
  qed
qed

text \<open>
  C5. On a well-formed question dictionary (a string body, a string description, a key that
  \<^verbatim>\<open>long\<close> accepts when it is non-empty, and a list of choices that each hold a
  string \<^verbatim>\<open>text\<close> and a \<^verbatim>\<open>score\<close> on which \<^verbatim>\<open>float\<close> returns or raises
  ValueError), \<^verbatim>\<open>McQuestionRESTHandler._validate15\<close> returns, and for the choice at
  index \<^verbatim>\<open>i\<close>: when \<^verbatim>\<open>float\<close> parses the score, the \<^verbatim>\<open>score\<close> field of
  that choice is replaced by the float and 'Choice N must have a numeric score.' with
  N = i + 1 is not among the appended errors; when \<^verbatim>\<open>float\<close> raises ValueError, the
  choice is left as it was and that error is among the appended ones.
\<close>

theorem Mc_validate15_coerces_scores:
  assumes q: "map_of question_dict ''question'' = Some (PStr q)"
    and d: "map_of question_dict ''description'' = Some (PStr d)"
    and key: "truthy key \<longrightarrow> py_long key = Inr k"
    and choices: "map_of question_dict ''choices'' = Some (PList cs)"
    and wf: "\<forall>c\<in>set cs. \<exists>entries t score.
             c = PDict entries \<and> map_of entries ''text'' = Some (PStr t) \<and>
             map_of entries ''score'' = Some score \<and>
             ((\<exists>f. py_float score = Inr f) \<or> (\<exists>m. py_float score = Inl (ValueError m)))"
    and i: "i < length cs"
  shows "\<exists>cs' new entries score.
           Mc_validate15 py_strip py_long py_float get_all question_dict key errors =
             Inr (AList.update ''choices'' (PList cs') question_dict, errors @ new) \<and>
           length cs' = length cs \<and>
           cs ! i = PDict entries \<and> map_of entries ''score'' = Some score \<and>
           (\<forall>f. py_float score = Inr f \<longrightarrow>
                cs' ! i = PDict (AList.update ''score'' (PFloat f) entries) \<and>
                (''Choice '' @ str_nat (i + 1) @ '' must have a numeric score.'') \<notin> set new) \<and>
           (\<forall>m. py_float score = Inl (ValueError m) \<longrightarrow>
                cs' ! i = cs ! i \<and>
                (''Choice '' @ str_nat (i + 1) @ '' must have a numeric score.'') \<in> set new)"
proof -
  from Mc_validate15_returns [where py_long = py_long and key = key and k = k, OF q d key choices wf]
  obtain question_dict' errors' where
    run: "Mc_validate15 py_strip py_long py_float get_all question_dict key errors =
            Inr (question_dict', errors')" by blast
  from Mc_validate15_structure [OF run choices] obtain q0 d0 cs' col news where
    s: "question_dict' = AList.update ''choices'' (PList cs') question_dict"
       "length cs' = length cs" "length news = length cs"
       "errors' = errors @
              ((if py_strip q0 = [] then [''The question must have a non-empty body.''] else []) @
               (if \<not> truthy d0 then [''The description must be non-empty.''] else []) @
               col @
               (if cs = [] then [''The question must have at least one choice.''] else [])) @
              concat news"
       "col = [] \<or> col = [''The description must be different from existing questions.'']"
       "\<forall>j<length cs. mc_check_choice py_strip py_float j (cs ! j) [] = Inr (cs' ! j, news ! j)"
    by blast
  let ?new = "((if py_strip q0 = [] then [''The question must have a non-empty body.''] else []) @
               (if \<not> truthy d0 then [''The description must be non-empty.''] else []) @
               col @
               (if cs = [] then [''The question must have at least one choice.''] else [])) @
              concat news"
  let ?msg = "''Choice '' @ str_nat (i + 1) @ '' must have a numeric score.''"
  have pre: "?msg \<in> set ?new \<longleftrightarrow> ?msg \<in> set (concat news)"
    using s(5) by auto
  have mem: "?msg \<in> set ?new \<longleftrightarrow> ?msg \<in> set (news ! i)"
    using pre news_score_iff [OF s(3) s(6) i] by blast
  from s(6) i have "mc_check_choice py_strip py_float i (cs ! i) [] = Inr (cs' ! i, news ! i)"
    by blast
  from mc_check_choice_new [OF this] obtain entries score where
    c: "cs ! i = PDict entries" "map_of entries ''score'' = Some score"
       "?msg \<in> set (news ! i) \<longleftrightarrow> (\<exists>m. py_float score = Inl (ValueError m))"
       "\<forall>f. py_float score = Inr f \<longrightarrow> cs' ! i = PDict (AList.update ''score'' (PFloat f) entries)"
       "(\<exists>m. py_float score = Inl (ValueError m)) \<longrightarrow> cs' ! i = cs ! i"
    by blast
  have "Mc_validate15 py_strip py_long py_float get_all question_dict key errors =
             Inr (AList.update ''choices'' (PList cs') question_dict, errors @ ?new)"
    using run s(1) s(4) by simp
  moreover have "\<forall>f. py_float score = Inr f \<longrightarrow>
                cs' ! i = PDict (AList.update ''score'' (PFloat f) entries) \<and> ?msg \<notin> set ?new"
    using c(3) c(4) mem by auto
  moreover have "\<forall>m. py_float score = Inl (ValueError m) \<longrightarrow>
                cs' ! i = cs ! i \<and> ?msg \<in> set ?new"
    using c(3) c(5) mem by auto
  ultimately show ?thesis using s(2) c(1) c(2) by blast
qed

theorem Mc_validate15_coerces_scores_witness:
  "Mc_validate15 (\<lambda>s. s) (\<lambda>v. Inl TypeError)
     (\<lambda>v. if v = PStr ''1.0'' then Inr (Finite 1) else Inl (ValueError ''could not convert''))
     []
     [(''question'', PStr ''Q''), (''description'', PStr ''D''),
      (''choices'', PList [PDict [(''text'', PStr ''a''), (''score'', PStr ''1.0'')],
                           PDict [(''text'', PStr ''b''), (''score'', PStr ''x'')]])]
     PNone [] =
   Inr ([(''question'', PStr ''Q''), (''description'', PStr ''D''),
         (''choices'', PList [PDict [(''text'', PStr ''a''), (''score'', PFloat (Finite 1))],
                              PDict [(''text'', PStr ''b''), (''score'', PStr ''x'')]])],
        [''Choice 2 must have a numeric score.''])"
  using Mc_validate15_coerces_scores
    [of "[(''question'', PStr ''Q''), (''description'', PStr ''D''),
      (''choices'', PList [PDict [(''text'', PStr ''a''), (''score'', PStr ''1.0'')],
                           PDict [(''text'', PStr ''b''), (''score'', PStr ''x'')]])]"
      "''Q''" "''D''" PNone "\<lambda>v. Inl TypeError" 0
      "[PDict [(''text'', PStr ''a''), (''score'', PStr ''1.0'')],
        PDict [(''text'', PStr ''b''), (''score'', PStr ''x'')]]"
      "\<lambda>v. if v = PStr ''1.0'' then Inr (Finite 1) else Inl (ValueError ''could not convert'')"
      1 "\<lambda>s. s" "[]" "[]"]
  by (simp add: Mc_validate15_def mc_check_choice_def dict_getitem_def
        validate_no_description_collision_def str_nat.simps digit_char_def)

text \<open>
  C7. On a well-formed question dictionary \<^verbatim>\<open>McQuestionRESTHandler._validate15\<close>
  returns, and among the errors it appends: 'The question must have a non-empty body.' is
  present exactly when the stripped question is empty, 'The description must be non-empty.'
  exactly when the description is empty, 'The question must have at least one choice.'
  exactly when the list of choices is empty, and 'Choice N has no response text.' with
  N = i + 1 exactly when the stripped text of the choice at index \<^verbatim>\<open>i\<close> is empty. When
  the body, the description and every choice text are non-empty, there is a choice, every
  score parses, and every stored question with this description is the one being edited,
  nothing is appended.
\<close>

theorem Mc_validate15_messages:
  assumes q: "map_of question_dict ''question'' = Some (PStr q)"
    and d: "map_of question_dict ''description'' = Some (PStr d)"
    and key: "truthy key \<longrightarrow> py_long key = Inr k"
    and choices: "map_of question_dict ''choices'' = Some (PList cs)"
    and wf: "\<forall>c\<in>set cs. \<exists>entries t score.
             c = PDict entries \<and> map_of entries ''text'' = Some (PStr t) \<and>
             map_of entries ''score'' = Some score \<and>
             ((\<exists>f. py_float score = Inr f) \<or> (\<exists>m. py_float score = Inl (ValueError m)))"
  shows "\<exists>cs' new.
           Mc_validate15 py_strip py_long py_float get_all question_dict key errors =
             Inr (AList.update ''choices'' (PList cs') question_dict, errors @ new) \<and>
           (''The question must have a non-empty body.'' \<in> set new \<longleftrightarrow> py_strip q = []) \<and>
           (''The description must be non-empty.'' \<in> set new \<longleftrightarrow> d = []) \<and>
           (''The question must have at least one choice.'' \<in> set new \<longleftrightarrow> cs = []) \<and>
           (\<forall>i<length cs. \<forall>entries t.
              cs ! i = PDict entries \<and> map_of entries ''text'' = Some (PStr t) \<longrightarrow>
              ((''Choice '' @ str_nat (i + 1) @ '' has no response text.'') \<in> set new \<longleftrightarrow>
               py_strip t = [])) \<and>
           (py_strip q \<noteq> [] \<and> d \<noteq> [] \<and> cs \<noteq> [] \<and>
            (\<forall>x\<in>set get_all. q_description x = d \<longrightarrow> truthy key \<and> q_id x = k) \<and>
            (\<forall>c\<in>set cs. \<exists>entries t score f.
               c = PDict entries \<and> map_of entries ''text'' = Some (PStr t) \<and> py_strip t \<noteq> [] \<and>
               map_of entries ''score'' = Some score \<and> py_float score = Inr f)
            \<longrightarrow> new = [])"
proof -
  from Mc_validate15_returns [where py_long = py_long and key = key and k = k, OF q d key choices wf]
  obtain question_dict' errors' where
    run: "Mc_validate15 py_strip py_long py_float get_all question_dict key errors =
            Inr (question_dict', errors')" by blast
  from Mc_validate15_structure [OF run choices] obtain q0 d0 cs' col news where
    s0: "map_of question_dict ''question'' = Some (PStr q0)"
        "map_of question_dict ''description'' = Some d0" and
    s: "question_dict' = AList.update ''choices'' (PList cs') question_dict"
       "length cs' = length cs" "length news = length cs"
       "errors' = errors @
              ((if py_strip q0 = [] then [''The question must have a non-empty body.''] else []) @
               (if \<not> truthy d0 then [''The description must be non-empty.''] else []) @
               col @
               (if cs = [] then [''The question must have at least one choice.''] else [])) @
              concat news"
       "col = [] \<or> col = [''The description must be different from existing questions.'']"
       "\<forall>j<length cs. mc_check_choice py_strip py_float j (cs ! j) [] = Inr (cs' ! j, news ! j)" and
    v: "\<forall>E. validate_no_description_collision py_long get_all d0 key E = Inr (E @ col)"
    by blast
  have q0: "q0 = q" and d0: "d0 = PStr d" using s0 q d by simp_all
  let ?new = "((if py_strip q = [] then [''The question must have a non-empty body.''] else []) @
               (if d = [] then [''The description must be non-empty.''] else []) @
               col @
               (if cs = [] then [''The question must have at least one choice.''] else [])) @
              concat news"
  note fx = fixed_not_in_news [OF s(3) s(6)]
  have r: "Mc_validate15 py_strip py_long py_float get_all question_dict key errors =
             Inr (AList.update ''choices'' (PList cs') question_dict, errors @ ?new)"
    using run s(1) s(4) q0 d0 by simp
  have b: "''The question must have a non-empty body.'' \<in> set ?new \<longleftrightarrow> py_strip q = []"
    using s(5) fx(1) by auto
  have e: "''The description must be non-empty.'' \<in> set ?new \<longleftrightarrow> d = []"
    using s(5) fx(2) by auto
  have n: "''The question must have at least one choice.'' \<in> set ?new \<longleftrightarrow> cs = []"
    using s(5) fx(3) by auto
  have t: "\<forall>i<length cs. \<forall>entries t.
              cs ! i = PDict entries \<and> map_of entries ''text'' = Some (PStr t) \<longrightarrow>
              ((''Choice '' @ str_nat (i + 1) @ '' has no response text.'') \<in> set ?new \<longleftrightarrow>
               py_strip t = [])"
  proof (intro allI impI)
    fix i entries t
    assume i: "i < length cs"
      and c: "cs ! i = PDict entries \<and> map_of entries ''text'' = Some (PStr t)"
    let ?msg = "''Choice '' @ str_nat (i + 1) @ '' has no response text.''"
    have "?msg \<in> set ?new \<longleftrightarrow> ?msg \<in> set (concat news)"
      using s(5) by auto
    then have mem: "?msg \<in> set ?new \<longleftrightarrow> ?msg \<in> set (news ! i)"
      using news_text_iff [OF s(3) s(6) i] by blast
    from s(6) i have "mc_check_choice py_strip py_float i (cs ! i) [] = Inr (cs' ! i, news ! i)"
      by blast
    from mc_check_choice_new [OF this] obtain entries' t' where
      "cs ! i = PDict entries'" "map_of entries' ''text'' = Some (PStr t')"
      "?msg \<in> set (news ! i) \<longleftrightarrow> py_strip t' = []"
      by blast
    then show "?msg \<in> set ?new \<longleftrightarrow> py_strip t = []" using c mem by simp
  qed
  have ok: "py_strip q \<noteq> [] \<and> d \<noteq> [] \<and> cs \<noteq> [] \<and>
            (\<forall>x\<in>set get_all. q_description x = d \<longrightarrow> truthy key \<and> q_id x = k) \<and>
            (\<forall>c\<in>set cs. \<exists>entries t score f.
               c = PDict entries \<and> map_of entries ''text'' = Some (PStr t) \<and> py_strip t \<noteq> [] \<and>
               map_of entries ''score'' = Some score \<and> py_float score = Inr f)
            \<longrightarrow> ?new = []"
  proof
    assume a: "py_strip q \<noteq> [] \<and> d \<noteq> [] \<and> cs \<noteq> [] \<and>
            (\<forall>x\<in>set get_all. q_description x = d \<longrightarrow> truthy key \<and> q_id x = k) \<and>
            (\<forall>c\<in>set cs. \<exists>entries t score f.
               c = PDict entries \<and> map_of entries ''text'' = Some (PStr t) \<and> py_strip t \<noteq> [] \<and>
               map_of entries ''score'' = Some score \<and> py_float score = Inr f)"
    have own: "\<forall>x\<in>set get_all. q_description x = d \<longrightarrow> truthy key \<and> py_long key = Inr (q_id x)"
      using a key by auto
    have "validate_no_description_collision py_long get_all (PStr d) key [] = Inr ([] @ col)"
      using v d0 by blast
    from no_collision [OF this own] have col: "col = []" by simp
    have "\<forall>n\<in>set news. n = []"
    proof
      fix n assume "n \<in> set news"
      then obtain j where j: "j < length news" "news ! j = n" by (auto simp: in_set_conv_nth)
      then have jl: "j < length cs" using s(3) by simp
      then have cj: "cs ! j \<in> set cs" by simp
      from a cj obtain entries t score f where
        w: "cs ! j = PDict entries" "map_of entries ''text'' = Some (PStr t)" "py_strip t \<noteq> []"
           "map_of entries ''score'' = Some score" "py_float score = Inr f"
        by blast
      from s(6) jl have "mc_check_choice py_strip py_float j (cs ! j) [] = Inr (cs' ! j, news ! j)"
        by blast
      from mc_check_choice_new [OF this] obtain entries' t' score' where
        "cs ! j = PDict entries'" "map_of entries' ''text'' = Some (PStr t')"
        "map_of entries' ''score'' = Some score'"
        "py_strip t' \<noteq> [] \<and> (\<exists>f. py_float score' = Inr f) \<longrightarrow> news ! j = []"
        by blast
      then show "n = []" using w j by auto
    qed
    then have "concat news = []" by simp
    then show "?new = []" using a col by simp
  qed
  from r b e n t ok show ?thesis by blast
qed

theorem Mc_validate15_messages_witness:
  "Mc_validate15 (\<lambda>s. if s = ''  '' then [] else s) (\<lambda>v. Inl TypeError)
     (\<lambda>v. if v = PStr ''1.0'' then Inr (Finite 1) else Inl (ValueError ''could not convert''))
     []
     [(''question'', PStr ''  ''), (''description'', PStr []),
      (''choices'', PList [PDict [(''text'', PStr ''  ''), (''score'', PStr ''1.0'')]])]
     PNone [] =
   Inr ([(''question'', PStr ''  ''), (''description'', PStr []),
         (''choices'', PList [PDict [(''text'', PStr ''  ''), (''score'', PFloat (Finite 1))]])],
        [''The question must have a non-empty body.'', ''The description must be non-empty.'',
         ''Choice 1 has no response text.'']) \<and>
   Mc_validate15 (\<lambda>s. if s = ''  '' then [] else s) (\<lambda>v. Inl TypeError)
     (\<lambda>v. if v = PStr ''1.0'' then Inr (Finite 1) else Inl (ValueError ''could not convert''))
     []
     [(''question'', PStr ''Q''), (''description'', PStr ''D''),
      (''choices'', PList [PDict [(''text'', PStr ''a''), (''score'', PStr ''1.0'')]])]
     PNone [] =
   Inr ([(''question'', PStr ''Q''), (''description'', PStr ''D''),
         (''choices'', PList [PDict [(''text'', PStr ''a''), (''score'', PFloat (Finite 1))]])],
        [])"
  using Mc_validate15_messages
    [of "[(''question'', PStr ''  ''), (''description'', PStr []),
      (''choices'', PList [PDict [(''text'', PStr ''  ''), (''score'', PStr ''1.0'')]])]"
      "''  ''" "[]" PNone "\<lambda>v. Inl TypeError" 0
      "[PDict [(''text'', PStr ''  ''), (''score'', PStr ''1.0'')]]"
      "\<lambda>v. if v = PStr ''1.0'' then Inr (Finite 1) else Inl (ValueError ''could not convert'')"
      "\<lambda>s. if s = ''  '' then [] else s" "[]" "[]"]
    Mc_validate15_messages
    [of "[(''question'', PStr ''Q''), (''description'', PStr ''D''),
      (''choices'', PList [PDict [(''text'', PStr ''a''), (''score'', PStr ''1.0'')]])]"
      "''Q''" "''D''" PNone "\<lambda>v. Inl TypeError" 0
      "[PDict [(''text'', PStr ''a''), (''score'', PStr ''1.0'')]]"
      "\<lambda>v. if v = PStr ''1.0'' then Inr (Finite 1) else Inl (ValueError ''could not convert'')"
      "\<lambda>s. if s = ''  '' then [] else s" "[]" "[]"]
  by (simp add: Mc_validate15_def mc_check_choice_def dict_getitem_def
        validate_no_description_collision_def str_nat.simps digit_char_def)

section \<open>SaQuestionRESTHandler: validation\<close>

text \<open>
  What one \<^verbatim>\<open>try\<close> block does to the dictionary and to the errors, and the shape
  of what the loop over the graders appends.
\<close>

lemma coerce_whole_number_shape:
  assumes v: "map_of question_dict field = Some v"
    and ok: "(\<exists>n. py_int v = Inr n) \<or> (\<exists>m. py_int v = Inl (ValueError m))"
  shows "\<exists>question_dict' msgs.
           coerce_whole_number py_int field label question_dict errors =
             Inr (question_dict', errors @ msgs) \<and>
           (\<forall>n. py_int v = Inr n \<longrightarrow>
                question_dict' = AList.update field (PInt n) question_dict \<and>
                msgs = (if n \<le> 0 then [label @ '' must be a positive whole number''] else [])) \<and>
           (\<forall>m. py_int v = Inl (ValueError m) \<longrightarrow>
                question_dict' = question_dict \<and> msgs = [label @ '' must be a whole number'']) \<and>
           (\<forall>k. k \<noteq> field \<longrightarrow> map_of question_dict' k = map_of question_dict k)"
  using ok
proof
  assume "\<exists>n. py_int v = Inr n"
  then obtain n where n: "py_int v = Inr n" by blast
  show ?thesis
    using v n by (simp add: coerce_whole_number_def dict_getitem_def update_conv')
next
  assume "\<exists>m. py_int v = Inl (ValueError m)"
  then obtain m where m: "py_int v = Inl (ValueError m)" by blast
  show ?thesis
    using v m by (simp add: coerce_whole_number_def dict_getitem_def)
qed

lemma sa_check_grader_shape:
  assumes "sa_check_grader py_strip py_float index g errors = Inr errors'"
  shows "\<exists>gn. errors' = errors @ gn \<and> (\<forall>m\<in>set gn. \<exists>r. m = ''Answer '' @ r)"
proof -
  obtain matcher where 1: "getitem g ''matcher'' = Inr matcher"
    using assms by (cases "getitem g ''matcher''") (simp_all add: sa_check_grader_def)
  have 2: "in_str_list matcher (map fst GRADER_TYPES)"
    using assms 1 by (cases "in_str_list matcher (map fst GRADER_TYPES)") (simp_all add: sa_check_grader_def)
  obtain r where 3: "getitem g ''response'' = Inr r"
    using assms 1 2 by (cases "getitem g ''response''") (simp_all add: sa_check_grader_def)
  obtain s where 4: "str_strip py_strip r = Inr s"
    using assms 1 2 3 by (cases "str_strip py_strip r") (simp_all add: sa_check_grader_def)
  obtain score where 5: "getitem g ''score'' = Inr score"
    using assms 1 2 3 4
    by (cases "getitem g ''score''") (simp_all add: sa_check_grader_def Let_def)
  show ?thesis
  proof (cases "py_float score")
    case (Inr f)
    then show ?thesis using assms 1 2 3 4 5 by (auto simp: sa_check_grader_def Let_def)
  next
    case (Inl e)
    then show ?thesis using assms 1 2 3 4 5
      by (cases e) (auto simp: sa_check_grader_def Let_def)
  qed
qed

lemma sa_graders_loop_shape:
  assumes "sa_graders_loop py_strip py_float index gs errors = Inr errors'"
  shows "\<exists>gnew. errors' = errors @ gnew \<and> (\<forall>m\<in>set gnew. \<exists>r. m = ''Answer '' @ r)"
  using assms
proof (induction gs arbitrary: index errors)
  case Nil
  then show ?case by simp
next
  case (Cons g gs)
  from Cons.prems obtain errors1 where
    1: "sa_check_grader py_strip py_float index g errors = Inr errors1" and
    2: "sa_graders_loop py_strip py_float (index + 1) gs errors1 = Inr errors'"
    by (auto split: sum.splits)
  from sa_check_grader_shape [OF 1] obtain gn where
    gn: "errors1 = errors @ gn" "\<forall>m\<in>set gn. \<exists>r. m = ''Answer '' @ r" by blast
  from Cons.IH [OF 2] obtain gnew where
    gnew: "errors' = errors1 @ gnew" "\<forall>m\<in>set gnew. \<exists>r. m = ''Answer '' @ r" by blast
  have "errors' = errors @ (gn @ gnew)" using gn(1) gnew(1) by simp
  moreover have "\<forall>m\<in>set (gn @ gnew). \<exists>r. m = ''Answer '' @ r" using gn(2) gnew(2) by auto
  ultimately show ?case by blast
qed

lemma sa_check_grader_total:
  assumes "\<exists>entries matcher r score.
             g = PDict entries \<and> map_of entries ''matcher'' = Some (PStr matcher) \<and>
             matcher \<in> set (map fst GRADER_TYPES) \<and>
             map_of entries ''response'' = Some (PStr r) \<and>
             map_of entries ''score'' = Some score \<and>
             ((\<exists>f. py_float score = Inr f) \<or> (\<exists>m. py_float score = Inl (ValueError m)))"
  shows "\<exists>errors'. sa_check_grader py_strip py_float index g errors = Inr errors'"
proof -
  from assms obtain entries matcher r score where
    g: "g = PDict entries" "map_of entries ''matcher'' = Some (PStr matcher)"
       "matcher \<in> set (map fst GRADER_TYPES)" "map_of entries ''response'' = Some (PStr r)"
       "map_of entries ''score'' = Some score" and
    f: "(\<exists>f. py_float score = Inr f) \<or> (\<exists>m. py_float score = Inl (ValueError m))"
    by blast
  from f show ?thesis
  proof
    assume "\<exists>f. py_float score = Inr f"
    then obtain f where "py_float score = Inr f" by blast
    then show ?thesis using g by (simp add: sa_check_grader_def dict_getitem_def Let_def)
  next
    assume "\<exists>m. py_float score = Inl (ValueError m)"
    then obtain m where "py_float score = Inl (ValueError m)" by blast
    then show ?thesis using g by (simp add: sa_check_grader_def dict_getitem_def Let_def)
  qed
qed

lemma sa_graders_loop_total:
  assumes "\<forall>g\<in>set gs. \<exists>entries matcher r score.
             g = PDict entries \<and> map_of entries ''matcher'' = Some (PStr matcher) \<and>
             matcher \<in> set (map fst GRADER_TYPES) \<and>
             map_of entries ''response'' = Some (PStr r) \<and>
             map_of entries ''score'' = Some score \<and>
             ((\<exists>f. py_float score = Inr f) \<or> (\<exists>m. py_float score = Inl (ValueError m)))"
  shows "\<exists>errors'. sa_graders_loop py_strip py_float index gs errors = Inr errors'"
  using assms
proof (induction gs arbitrary: index errors)
  case Nil
  then show ?case by simp
next
  case (Cons g gs)
  from Cons.prems have "\<exists>entries matcher r score.
             g = PDict entries \<and> map_of entries ''matcher'' = Some (PStr matcher) \<and>
             matcher \<in> set (map fst GRADER_TYPES) \<and>
             map_of entries ''response'' = Some (PStr r) \<and>
             map_of entries ''score'' = Some score \<and>
             ((\<exists>f. py_float score = Inr f) \<or> (\<exists>m. py_float score = Inl (ValueError m)))"
    by simp
  from sa_check_grader_total [where py_float = py_float and py_strip = py_strip and index = index and errors = errors, OF this] obtain errors1 where
    1: "sa_check_grader py_strip py_float index g errors = Inr errors1" by blast
  from Cons.prems have "\<forall>g\<in>set gs. \<exists>entries matcher r score.
             g = PDict entries \<and> map_of entries ''matcher'' = Some (PStr matcher) \<and>
             matcher \<in> set (map fst GRADER_TYPES) \<and>
             map_of entries ''response'' = Some (PStr r) \<and>
             map_of entries ''score'' = Some score \<and>
             ((\<exists>f. py_float score = Inr f) \<or> (\<exists>m. py_float score = Inl (ValueError m)))"
    by simp
  from Cons.IH [where index = "index + 1" and errors = errors1, OF this] obtain errors' where
    "sa_graders_loop py_strip py_float (index + 1) gs errors1 = Inr errors'" by blast
  then show ?case using 1 by simp
qed

lemma Sa_validate15_structure:
  assumes q: "map_of question_dict ''question'' = Some (PStr q)"
    and d: "map_of question_dict ''description'' = Some (PStr d)"
    and key: "truthy key \<longrightarrow> py_long key = Inr k"
    and rows: "map_of question_dict ''rows'' = Some r"
    and r_ok: "(\<exists>n. py_int r = Inr n) \<or> (\<exists>m. py_int r = Inl (ValueError m))"
    and columns: "map_of question_dict ''columns'' = Some c"
    and c_ok: "(\<exists>n. py_int c = Inr n) \<or> (\<exists>m. py_int c = Inl (ValueError m))"
    and graders: "map_of question_dict ''graders'' = Some (PList gs)"
    and wf: "\<forall>g\<in>set gs. \<exists>entries matcher r score.
             g = PDict entries \<and> map_of entries ''matcher'' = Some (PStr matcher) \<and>
             matcher \<in> set (map fst GRADER_TYPES) \<and>
             map_of entries ''response'' = Some (PStr r) \<and>
             map_of entries ''score'' = Some score \<and>
             ((\<exists>f. py_float score = Inr f) \<or> (\<exists>m. py_float score = Inl (ValueError m)))"
  shows "\<exists>question_dict1 question_dict2 pre rmsgs cmsgs post.
           Sa_validate15 py_strip py_long py_int py_float get_all question_dict key errors =
             Inr (question_dict2, errors @ pre @ rmsgs @ cmsgs @ post) \<and>
           coerce_whole_number py_int ''rows'' ''Rows'' question_dict [] =
             Inr (question_dict1, rmsgs) \<and>
           coerce_whole_number py_int ''columns'' ''Columns'' question_dict1 [] =
             Inr (question_dict2, cmsgs) \<and>
           (\<forall>m\<in>set pre. \<exists>s. m = ''The '' @ s) \<and>
           (\<forall>m\<in>set post. (\<exists>s. m = ''The '' @ s) \<or> (\<exists>s. m = ''Answer '' @ s))"
proof -
  let ?E2 = "errors @ (if py_strip q = [] then [''The question must have a non-empty body.''] else []) @
               (if \<not> truthy (PStr d) then [''The description must be non-empty.''] else [])"
  from validate_no_description_collision_total [of key py_long k get_all d ?E2] key
  obtain errors3 where
    v: "validate_no_description_collision py_long get_all (PStr d) key ?E2 = Inr errors3"
    by blast
  from collision_shape [OF v] obtain col where
    col: "errors3 = ?E2 @ col"
      "col = [] \<or> col = [''The description must be different from existing questions.'']"
    by blast
  from coerce_whole_number_shape [where py_int = py_int and label = "''Rows''" and errors = errors3, OF rows r_ok] obtain question_dict1 rmsgs where
    c1: "coerce_whole_number py_int ''rows'' ''Rows'' question_dict errors3 =
           Inr (question_dict1, errors3 @ rmsgs)"
        "\<forall>n. py_int r = Inr n \<longrightarrow>
                question_dict1 = AList.update ''rows'' (PInt n) question_dict \<and>
                rmsgs = (if n \<le> 0 then [''Rows'' @ '' must be a positive whole number''] else [])"
        "\<forall>m. py_int r = Inl (ValueError m) \<longrightarrow>
                question_dict1 = question_dict \<and> rmsgs = [''Rows'' @ '' must be a whole number'']"
        "\<forall>k. k \<noteq> ''rows'' \<longrightarrow> map_of question_dict1 k = map_of question_dict k"
    by blast
  from coerce_whole_number_shape [where py_int = py_int and label = "''Rows''" and errors = "[]", OF rows r_ok] c1(2) c1(3) r_ok
  have c1': "coerce_whole_number py_int ''rows'' ''Rows'' question_dict [] = Inr (question_dict1, rmsgs)"
    by auto
  have columns1: "map_of question_dict1 ''columns'' = Some c" using c1(4) columns by simp
  from coerce_whole_number_shape [where py_int = py_int and label = "''Columns''" and errors = "errors3 @ rmsgs", OF columns1 c_ok]
  obtain question_dict2 cmsgs where
    c2: "coerce_whole_number py_int ''columns'' ''Columns'' question_dict1 (errors3 @ rmsgs) =
           Inr (question_dict2, (errors3 @ rmsgs) @ cmsgs)"
        "\<forall>n. py_int c = Inr n \<longrightarrow>
                question_dict2 = AList.update ''columns'' (PInt n) question_dict1 \<and>
                cmsgs = (if n \<le> 0 then [''Columns'' @ '' must be a positive whole number''] else [])"
        "\<forall>m. py_int c = Inl (ValueError m) \<longrightarrow>
                question_dict2 = question_dict1 \<and> cmsgs = [''Columns'' @ '' must be a whole number'']"
        "\<forall>k. k \<noteq> ''columns'' \<longrightarrow> map_of question_dict2 k = map_of question_dict1 k"
    by blast
  from coerce_whole_number_shape [where py_int = py_int and label = "''Columns''" and errors = "[]", OF columns1 c_ok] c2(2) c2(3) c_ok
  have c2': "coerce_whole_number py_int ''columns'' ''Columns'' question_dict1 [] =
               Inr (question_dict2, cmsgs)"
    by auto
  have graders2: "map_of question_dict2 ''graders'' = Some (PList gs)"
    using c1(4) c2(4) graders by simp
  let ?E6 = "((errors3 @ rmsgs) @ cmsgs) @
               (if gs = [] then [''The question must have at least one answer.''] else [])"
  from sa_graders_loop_total [where py_float = py_float and py_strip = py_strip and index = 0 and errors = ?E6, OF wf] obtain errors7 where
    l: "sa_graders_loop py_strip py_float 0 gs ?E6 = Inr errors7" by blast
  from sa_graders_loop_shape [OF l] obtain gnew where
    gnew: "errors7 = ?E6 @ gnew" "\<forall>m\<in>set gnew. \<exists>r. m = ''Answer '' @ r" by blast
  let ?pre = "(if py_strip q = [] then [''The question must have a non-empty body.''] else []) @
               (if d = [] then [''The description must be non-empty.''] else []) @ col"
  let ?post = "(if gs = [] then [''The question must have at least one answer.''] else []) @ gnew"
  have run: "Sa_validate15 py_strip py_long py_int py_float get_all question_dict key errors =
          Inr (question_dict2, errors7)"
    using q d v c1(1) c2(1) graders2 l
    by (simp add: Sa_validate15_def dict_getitem_def Let_def if_append split del: if_split)
  have e7: "errors7 = errors @ ?pre @ rmsgs @ cmsgs @ ?post"
    using gnew(1) col(1) by simp
  have pre: "\<forall>m\<in>set ?pre. \<exists>s. m = ''The '' @ s" using col(2) by auto
  have post: "\<forall>m\<in>set ?post. (\<exists>s. m = ''The '' @ s) \<or> (\<exists>s. m = ''Answer '' @ s)"
    using gnew(2) by auto
  from run e7 c1' c2' pre post show ?thesis by blast
qed

lemma rows_columns_not_fixed:
  assumes "\<forall>m\<in>set xs. (\<exists>s. m = ''The '' @ s) \<or> (\<exists>s. m = ''Answer '' @ s)"
  shows "''Rows must be a positive whole number'' \<notin> set xs"
    "''Rows must be a whole number'' \<notin> set xs"
    "''Columns must be a positive whole number'' \<notin> set xs"
    "''Columns must be a whole number'' \<notin> set xs"
proof -
  show "''Rows must be a positive whole number'' \<notin> set xs"
  proof
    assume "''Rows must be a positive whole number'' \<in> set xs"
    with assms have "(\<exists>s. ''Rows must be a positive whole number'' = ''The '' @ s) \<or>
        (\<exists>s. ''Rows must be a positive whole number'' = ''Answer '' @ s)" by blast
    then show False by simp
  qed
  show "''Rows must be a whole number'' \<notin> set xs"
  proof
    assume "''Rows must be a whole number'' \<in> set xs"
    with assms have "(\<exists>s. ''Rows must be a whole number'' = ''The '' @ s) \<or>
        (\<exists>s. ''Rows must be a whole number'' = ''Answer '' @ s)" by blast
    then show False by simp
  qed
  show "''Columns must be a positive whole number'' \<notin> set xs"
  proof
    assume "''Columns must be a positive whole number'' \<in> set xs"
    with assms have "(\<exists>s. ''Columns must be a positive whole number'' = ''The '' @ s) \<or>
        (\<exists>s. ''Columns must be a positive whole number'' = ''Answer '' @ s)" by blast
    then show False by simp
  qed
  show "''Columns must be a whole number'' \<notin> set xs"
  proof
    assume "''Columns must be a whole number'' \<in> set xs"
    with assms have "(\<exists>s. ''Columns must be a whole number'' = ''The '' @ s) \<or>
        (\<exists>s. ''Columns must be a whole number'' = ''Answer '' @ s)" by blast
    then show False by simp
  qed
qed

text \<open>
  C6. On a well-formed question dictionary (a string body, a string description, a key that
  \<^verbatim>\<open>long\<close> accepts when it is non-empty, \<^verbatim>\<open>rows\<close> and \<^verbatim>\<open>columns\<close> on
  which \<^verbatim>\<open>int\<close> returns or raises ValueError, and a list of well-formed graders),
  \<^verbatim>\<open>SaQuestionRESTHandler._validate15\<close> returns, and for each of the two fields: when
  \<^verbatim>\<open>int\<close> parses it, the field holds the integer afterwards, '<Field> must be a
  positive whole number' is among the appended errors exactly when the integer is at most
  zero, and '<Field> must be a whole number' is not appended; when \<^verbatim>\<open>int\<close> raises
  ValueError, the field is left as it was, '<Field> must be a whole number' is appended
  and the other message is not. No other key of the dictionary changes.
\<close>

theorem Sa_validate15_coerces_rows_columns:
  assumes q: "map_of question_dict ''question'' = Some (PStr q)"
    and d: "map_of question_dict ''description'' = Some (PStr d)"
    and key: "truthy key \<longrightarrow> py_long key = Inr k"
    and rows: "map_of question_dict ''rows'' = Some r"
    and r_ok: "(\<exists>n. py_int r = Inr n) \<or> (\<exists>m. py_int r = Inl (ValueError m))"
    and columns: "map_of question_dict ''columns'' = Some c"
    and c_ok: "(\<exists>n. py_int c = Inr n) \<or> (\<exists>m. py_int c = Inl (ValueError m))"
    and graders: "map_of question_dict ''graders'' = Some (PList gs)"
    and wf: "\<forall>g\<in>set gs. \<exists>entries matcher r score.
             g = PDict entries \<and> map_of entries ''matcher'' = Some (PStr matcher) \<and>
             matcher \<in> set (map fst GRADER_TYPES) \<and>
             map_of entries ''response'' = Some (PStr r) \<and>
             map_of entries ''score'' = Some score \<and>
             ((\<exists>f. py_float score = Inr f) \<or> (\<exists>m. py_float score = Inl (ValueError m)))"
  shows "\<exists>question_dict' new.
           Sa_validate15 py_strip py_long py_int py_float get_all question_dict key errors =
             Inr (question_dict', errors @ new) \<and>
           (\<forall>n. py_int r = Inr n \<longrightarrow>
                map_of question_dict' ''rows'' = Some (PInt n) \<and>
                (''Rows must be a positive whole number'' \<in> set new \<longleftrightarrow> n \<le> 0) \<and>
                ''Rows must be a whole number'' \<notin> set new) \<and>
           (\<forall>m. py_int r = Inl (ValueError m) \<longrightarrow>
                map_of question_dict' ''rows'' = Some r \<and>
                ''Rows must be a whole number'' \<in> set new \<and>
                ''Rows must be a positive whole number'' \<notin> set new) \<and>
           (\<forall>n. py_int c = Inr n \<longrightarrow>
                map_of question_dict' ''columns'' = Some (PInt n) \<and>
                (''Columns must be a positive whole number'' \<in> set new \<longleftrightarrow> n \<le> 0) \<and>
                ''Columns must be a whole number'' \<notin> set new) \<and>
           (\<forall>m. py_int c = Inl (ValueError m) \<longrightarrow>
                map_of question_dict' ''columns'' = Some c \<and>
                ''Columns must be a whole number'' \<in> set new \<and>
                ''Columns must be a positive whole number'' \<notin> set new) \<and>
           (\<forall>k. k \<noteq> ''rows'' \<and> k \<noteq> ''columns'' \<longrightarrow>
                map_of question_dict' k = map_of question_dict k)"
proof -
  from Sa_validate15_structure
    [where py_long = py_long and key = key and k = k and py_int = py_int and py_float = py_float,
     OF q d key rows r_ok columns c_ok graders wf]
  obtain question_dict1 question_dict2 pre rmsgs cmsgs post where
    run: "Sa_validate15 py_strip py_long py_int py_float get_all question_dict key errors =
             Inr (question_dict2, errors @ pre @ rmsgs @ cmsgs @ post)" and
    c1: "coerce_whole_number py_int ''rows'' ''Rows'' question_dict [] =
             Inr (question_dict1, rmsgs)" and
    c2: "coerce_whole_number py_int ''columns'' ''Columns'' question_dict1 [] =
             Inr (question_dict2, cmsgs)" and
    pre: "\<forall>m\<in>set pre. \<exists>s. m = ''The '' @ s" and
    post: "\<forall>m\<in>set post. (\<exists>s. m = ''The '' @ s) \<or> (\<exists>s. m = ''Answer '' @ s)"
    by blast
  from coerce_whole_number_shape
    [where py_int = py_int and label = "''Rows''" and errors = "[]", OF rows r_ok] c1
  have s1: "\<forall>n. py_int r = Inr n \<longrightarrow>
                question_dict1 = AList.update ''rows'' (PInt n) question_dict \<and>
                rmsgs = (if n \<le> 0 then [''Rows must be a positive whole number''] else [])"
        "\<forall>m. py_int r = Inl (ValueError m) \<longrightarrow>
                question_dict1 = question_dict \<and> rmsgs = [''Rows must be a whole number'']"
        "\<forall>k. k \<noteq> ''rows'' \<longrightarrow> map_of question_dict1 k = map_of question_dict k"
    by auto
  have columns1: "map_of question_dict1 ''columns'' = Some c" using s1(3) columns by simp
  from coerce_whole_number_shape
    [where py_int = py_int and label = "''Columns''" and errors = "[]", OF columns1 c_ok] c2
  have s2: "\<forall>n. py_int c = Inr n \<longrightarrow>
                question_dict2 = AList.update ''columns'' (PInt n) question_dict1 \<and>
                cmsgs = (if n \<le> 0 then [''Columns must be a positive whole number''] else [])"
        "\<forall>m. py_int c = Inl (ValueError m) \<longrightarrow>
                question_dict2 = question_dict1 \<and> cmsgs = [''Columns must be a whole number'']"
        "\<forall>k. k \<noteq> ''columns'' \<longrightarrow> map_of question_dict2 k = map_of question_dict1 k"
    by auto
  let ?new = "pre @ rmsgs @ cmsgs @ post"
  have rset: "set rmsgs \<subseteq> {''Rows must be a positive whole number'', ''Rows must be a whole number''}"
    using r_ok s1(1) s1(2) by auto
  have cset: "set cmsgs \<subseteq> {''Columns must be a positive whole number'',
                              ''Columns must be a whole number''}"
    using c_ok s2(1) s2(2) by auto
  have pre': "\<forall>m\<in>set pre. (\<exists>s. m = ''The '' @ s) \<or> (\<exists>s. m = ''Answer '' @ s)"
    using pre by blast
  note np = rows_columns_not_fixed [OF pre'] rows_columns_not_fixed [OF post]
  have nr: "''Columns must be a positive whole number'' \<notin> set rmsgs"
      "''Columns must be a whole number'' \<notin> set rmsgs"
    using rset by auto
  have nc: "''Rows must be a positive whole number'' \<notin> set cmsgs"
      "''Rows must be a whole number'' \<notin> set cmsgs"
    using cset by auto
  have m1: "''Rows must be a positive whole number'' \<in> set ?new \<longleftrightarrow>
            ''Rows must be a positive whole number'' \<in> set rmsgs"
    using np nc by simp
  have m2: "''Rows must be a whole number'' \<in> set ?new \<longleftrightarrow>
            ''Rows must be a whole number'' \<in> set rmsgs"
    using np nc by simp
  have m3: "''Columns must be a positive whole number'' \<in> set ?new \<longleftrightarrow>
            ''Columns must be a positive whole number'' \<in> set cmsgs"
    using np nr by simp
  have m4: "''Columns must be a whole number'' \<in> set ?new \<longleftrightarrow>
            ''Columns must be a whole number'' \<in> set cmsgs"
    using np nr by simp
  have rows2: "map_of question_dict2 ''rows'' = map_of question_dict1 ''rows''"
    using s2(3) by simp
  have r1: "\<forall>n. py_int r = Inr n \<longrightarrow>
                map_of question_dict2 ''rows'' = Some (PInt n) \<and>
                (''Rows must be a positive whole number'' \<in> set ?new \<longleftrightarrow> n \<le> 0) \<and>
                ''Rows must be a whole number'' \<notin> set ?new"
    unfolding m1 m2 rows2 using s1(1) by (simp add: update_conv')
  have r2: "\<forall>m. py_int r = Inl (ValueError m) \<longrightarrow>
                map_of question_dict2 ''rows'' = Some r \<and>
                ''Rows must be a whole number'' \<in> set ?new \<and>
                ''Rows must be a positive whole number'' \<notin> set ?new"
    unfolding m1 m2 rows2 using s1(2) rows by simp
  have r3: "\<forall>n. py_int c = Inr n \<longrightarrow>
                map_of question_dict2 ''columns'' = Some (PInt n) \<and>
                (''Columns must be a positive whole number'' \<in> set ?new \<longleftrightarrow> n \<le> 0) \<and>
                ''Columns must be a whole number'' \<notin> set ?new"
    unfolding m3 m4 using s2(1) by (simp add: update_conv')
  have r4: "\<forall>m. py_int c = Inl (ValueError m) \<longrightarrow>
                map_of question_dict2 ''columns'' = Some c \<and>
                ''Columns must be a whole number'' \<in> set ?new \<and>
                ''Columns must be a positive whole number'' \<notin> set ?new"
    unfolding m3 m4 using s2(2) columns1 by simp
  have r5: "\<forall>k. k \<noteq> ''rows'' \<and> k \<noteq> ''columns'' \<longrightarrow>
                map_of question_dict2 k = map_of question_dict k"
    using s1(3) s2(3) by simp
  from run r1 r2 r3 r4 r5 show ?thesis by blast
qed

theorem Sa_validate15_coerces_rows_columns_witness:
  "Sa_validate15 (\<lambda>s. s) (\<lambda>v. Inl TypeError)
     (\<lambda>v. if v = PStr ''3'' then Inr 3 else if v = PStr ''0'' then Inr 0
           else Inl (ValueError ''invalid literal''))
     (\<lambda>v. if v = PStr ''1.0'' then Inr (Finite 1) else Inl (ValueError ''could not convert''))
     []
     [(''question'', PStr ''Q''), (''description'', PStr ''D''),
      (''rows'', PStr ''0''), (''columns'', PStr ''x''),
      (''graders'', PList [PDict [(''matcher'', PStr ''regex''), (''response'', PStr ''a''),
                                  (''score'', PStr ''1.0'')]])]
     PNone [] =
   Inr ([(''question'', PStr ''Q''), (''description'', PStr ''D''),
         (''rows'', PInt 0), (''columns'', PStr ''x''),
         (''graders'', PList [PDict [(''matcher'', PStr ''regex''), (''response'', PStr ''a''),
                                     (''score'', PStr ''1.0'')]])],
        [''Rows must be a positive whole number'', ''Columns must be a whole number'']) \<and>
   Sa_validate15 (\<lambda>s. s) (\<lambda>v. Inl TypeError)
     (\<lambda>v. if v = PStr ''3'' then Inr 3 else if v = PStr ''0'' then Inr 0
           else Inl (ValueError ''invalid literal''))
     (\<lambda>v. if v = PStr ''1.0'' then Inr (Finite 1) else Inl (ValueError ''could not convert''))
     []
     [(''question'', PStr ''Q''), (''description'', PStr ''D''),
      (''rows'', PStr ''3''), (''columns'', PStr ''3''),
      (''graders'', PList [PDict [(''matcher'', PStr ''regex''), (''response'', PStr ''a''),
                                  (''score'', PStr ''1.0'')]])]
     PNone [] =
   Inr ([(''question'', PStr ''Q''), (''description'', PStr ''D''),
         (''rows'', PInt 3), (''columns'', PInt 3),
         (''graders'', PList [PDict [(''matcher'', PStr ''regex''), (''response'', PStr ''a''),
                                     (''score'', PStr ''1.0'')]])],
        [])"
  using Sa_validate15_coerces_rows_columns
    [where question_dict = "[(''question'', PStr ''Q''), (''description'', PStr ''D''),
      (''rows'', PStr ''0''), (''columns'', PStr ''x''),
      (''graders'', PList [PDict [(''matcher'', PStr ''regex''), (''response'', PStr ''a''),
                                  (''score'', PStr ''1.0'')]])]"
      and q = "''Q''" and d = "''D''" and key = PNone and py_long = "\<lambda>v. Inl TypeError" and k = 0
      and r = "PStr ''0''" and c = "PStr ''x''"
      and py_int = "\<lambda>v. if v = PStr ''3'' then Inr 3 else if v = PStr ''0'' then Inr 0
           else Inl (ValueError ''invalid literal'')"
      and gs = "[PDict [(''matcher'', PStr ''regex''), (''response'', PStr ''a''),
                                  (''score'', PStr ''1.0'')]]"
      and py_float = "\<lambda>v. if v = PStr ''1.0'' then Inr (Finite 1) else Inl (ValueError ''could not convert'')"
      and py_strip = "\<lambda>s. s" and get_all = "[]" and errors = "[]"]
    Sa_validate15_coerces_rows_columns
    [where question_dict = "[(''question'', PStr ''Q''), (''description'', PStr ''D''),
      (''rows'', PStr ''3''), (''columns'', PStr ''3''),
      (''graders'', PList [PDict [(''matcher'', PStr ''regex''), (''response'', PStr ''a''),
                                  (''score'', PStr ''1.0'')]])]"
      and q = "''Q''" and d = "''D''" and key = PNone and py_long = "\<lambda>v. Inl TypeError" and k = 0
      and r = "PStr ''3''" and c = "PStr ''3''"
      and py_int = "\<lambda>v. if v = PStr ''3'' then Inr 3 else if v = PStr ''0'' then Inr 0
           else Inl (ValueError ''invalid literal'')"
      and gs = "[PDict [(''matcher'', PStr ''regex''), (''response'', PStr ''a''),
                                  (''score'', PStr ''1.0'')]]"
      and py_float = "\<lambda>v. if v = PStr ''1.0'' then Inr (Finite 1) else Inl (ValueError ''could not convert'')"
      and py_strip = "\<lambda>s. s" and get_all = "[]" and errors = "[]"]
  by (simp add: Sa_validate15_def coerce_whole_number_def sa_check_grader_def dict_getitem_def
        GRADER_TYPES_def validate_no_description_collision_def str_nat.simps digit_char_def)

end
